(* ===== verification/Prelude.thy ===== *)
theory Prelude
  imports Complex_Main
begin

text \<open>
  Shared vocabulary of the development: the Python exceptions the module can raise,
  propagation of an exception through a sequence of statements (\<open>ebind\<close>), and the
  generic facts on rectangular nested lists (numpy 2-D arrays as row lists) that the
  grid sampler and the scene composer share.
\<close>

section \<open>Collections\<close>

named_theorems grid_simps "evaluation rules for sample grids"

section \<open>Exceptions\<close>

text \<open>
  Every failure that \<open>src/plotting_class.py\<close> lets through to its caller.
  \<open>IncompatibleUnits a b\<close> is the units library's exception when a quantity in unit
  \<open>a\<close> is converted to or added with unit \<open>b\<close> of another dimension;
  \<open>UnpackError n\<close> is Python's \<open>ValueError\<close> when a tuple of \<open>n\<close> values is
  unpacked into five names; \<open>ReshapeError s r c\<close> is numpy's \<open>ValueError\<close>
  "cannot reshape array of size s into shape (r,c)"; \<open>EvaluatorError msg\<close> is any
  exception raised by the hydrodynamics code, passed through unchanged.
\<close>

datatype py_error =
    IncompatibleUnits string string
  | UnpackError nat
  | ReshapeError nat nat nat
  | EvaluatorError string

text \<open>
  Sequencing of statements that may raise: the first exception is the result and the
  statements after it do not run.
\<close>

definition ebind :: "('e + 'a) \<Rightarrow> ('a \<Rightarrow> 'e + 'b) \<Rightarrow> 'e + 'b" where
  "ebind r f = (case r of Inl e \<Rightarrow> Inl e | Inr a \<Rightarrow> f a)"

text \<open>A list of \<open>n\<close> rows, each of length \<open>m\<close>: a numpy array of shape \<open>(n, m)\<close>.\<close>

definition rect :: "nat \<Rightarrow> nat \<Rightarrow> 'a list list \<Rightarrow> bool" where
  "rect n m g \<longleftrightarrow> length g = n \<and> list_all (\<lambda>r. length r = m) g"

section \<open>Lemmas on exceptions\<close>

lemma ebind_Inl [simp]: "ebind (Inl e) f = Inl e"
  by (simp add: ebind_def)

lemma ebind_Inr [simp]: "ebind (Inr a) f = f a"
  by (simp add: ebind_def)

lemma ebind_eq_Inr_iff:
  "ebind r f = Inr b \<longleftrightarrow> (\<exists>a. r = Inr a \<and> f a = Inr b)"
  by (cases r) auto

lemma ebind_eq_Inl_iff:
  "ebind r f = Inl e \<longleftrightarrow> r = Inl e \<or> (\<exists>a. r = Inr a \<and> f a = Inl e)"
  by (cases r) auto

section \<open>Rectangular grids\<close>

lemma rect_Nil [simp]: "rect n m [] \<longleftrightarrow> n = 0"
  by (auto simp: rect_def)

lemma rect_Cons [simp]: "rect n m (r # g) \<longleftrightarrow> (\<exists>k. n = Suc k \<and> length r = m \<and> rect k m g)"
  by (cases n) (auto simp: rect_def)

lemma rect_nth_length:
  "rect n m g \<Longrightarrow> i < n \<Longrightarrow> length (g ! i) = m"
  by (auto simp: rect_def list_all_length)

lemma rect_map_map [simp]: "rect n m (map (map f) g) \<longleftrightarrow> rect n m g"
  by (simp add: rect_def list_all_iff)

lemma length_concat_rect:
  "rect n m g \<Longrightarrow> length (concat g) = n * m"
proof (induction g arbitrary: n)
  case Nil
  then show ?case by simp
next
  case (Cons r g)
  then obtain k where "n = Suc k" "length r = m" "rect k m g" by auto
  with Cons.IH show ?case by simp
qed

text \<open>Row-major order: entry \<open>(i, j)\<close> sits at flat position \<open>i * m + j\<close>.\<close>

lemma nth_concat_rect:
  "rect n m g \<Longrightarrow> i < n \<Longrightarrow> j < m \<Longrightarrow> concat g ! (i * m + j) = g ! i ! j"
proof (induction g arbitrary: n i)
  case Nil
  then show ?case by simp
next
  case (Cons r g)
  then obtain k where k: "n = Suc k" "length r = m" "rect k m g" by auto
  show ?case
  proof (cases i)
    case 0
    with Cons.prems k show ?thesis by (simp add: nth_append)
  next
    case (Suc i')
    with Cons.prems k have "concat g ! (i' * m + j) = g ! i' ! j"
      by (intro Cons.IH) auto
    with Suc k show ?thesis by (simp add: nth_append algebra_simps)
  qed
qed

text \<open>Transposition of a rectangular grid with non-empty rows swaps the indices.\<close>

lemma length_transpose_rect:
  assumes "rect n m g" "0 < n"
  shows "length (transpose g) = m"
proof -
  have "rect k m g \<Longrightarrow> foldr (\<lambda>xs. max (length xs)) g 0 = (if k = 0 then 0 else m)" for k
    by (induction g arbitrary: k) auto
  with assms show ?thesis by (simp add: length_transpose)
qed

lemma nth_nth_transpose_rect:
  assumes "rect n m g" "0 < n" "i < n" "j < m"
  shows "transpose g ! j ! i = g ! i ! j"
proof -
  have len: "j < length (transpose g)"
    using assms by (simp add: length_transpose_rect)
  have "filter (\<lambda>ys. j < length ys) g = g"
    using assms(1,4) by (auto simp: rect_def list_all_iff)
  with len assms show ?thesis
    by (simp add: nth_transpose rect_def)
qed

lemma rect_transpose:
  assumes "rect n m g" "0 < n"
  shows "rect m n (transpose g)"
proof -
  have "length (transpose g ! j) = n" if "j < m" for j
  proof -
    have "filter (\<lambda>ys. j < length ys) g = g"
      using assms(1) that by (auto simp: rect_def list_all_iff)
    moreover have "j < length (transpose g)"
      using assms that by (simp add: length_transpose_rect)
    ultimately show ?thesis
      using assms(1) by (simp add: nth_transpose rect_def)
  qed
  moreover have "length (transpose g) = m"
    using assms by (rule length_transpose_rect)
  ultimately show ?thesis
    by (simp add: rect_def list_all_length)
qed

text \<open>Pointwise combination of two flattened grids of the same shape.\<close>

lemma map2_concat_rect:
  "rect n m X \<Longrightarrow> rect n m Y \<Longrightarrow> map2 f (concat X) (concat Y) = concat (map2 (map2 f) X Y)"
proof (induction X arbitrary: n Y)
  case Nil
  then show ?case by simp
next
  case (Cons r X)
  then obtain k where k: "n = Suc k" "length r = m" "rect k m X" by auto
  with Cons.prems(2) obtain s Y' where "Y = s # Y'" "length s = m" "rect k m Y'"
    by (cases Y) auto
  with k Cons.IH show ?case by (simp add: zip_append)
qed

lemma map_eq_replicate_length: "(\<And>x. f x = c) \<Longrightarrow> map f xs = replicate (length xs) c"
  by (induction xs) auto

lemma length_filter_take: "length (filter P (take j xs)) \<le> length (filter P xs)"
  by (metis append_take_drop_id filter_append length_append le_add1)

end
