(* ===== verification/Floats.thy ===== *)
theory Floats
  imports Prelude
begin

text \<open>
  The numbers the module computes with are numpy \<open>float64\<close> values. They are modelled
  by \<open>fval\<close>: an exact real, or one of IEEE-754's three special values. Arithmetic
  follows IEEE-754 on the special values (NaN absorbs, infinity times zero and
  infinity minus infinity are NaN, a non-zero number divided by zero is a signed
  infinity, zero divided by zero is NaN) and is exact on finite values: rounding and
  the sign of zero are not modelled. numpy's \<open>log10\<close> gives \<open>-inf\<close> at zero and
  NaN below zero (with a warning, not an exception).
\<close>

datatype fval = Num real | PInf | NInf | NaN

fun is_finite :: "fval \<Rightarrow> bool" where
  "is_finite (Num _) = True"
| "is_finite _ = False"

fun fneg :: "fval \<Rightarrow> fval" where
  "fneg (Num a) = Num (- a)"
| "fneg PInf = NInf"
| "fneg NInf = PInf"
| "fneg NaN = NaN"

fun fadd :: "fval \<Rightarrow> fval \<Rightarrow> fval" where
  "fadd NaN _ = NaN"
| "fadd _ NaN = NaN"
| "fadd (Num a) (Num b) = Num (a + b)"
| "fadd PInf NInf = NaN"
| "fadd NInf PInf = NaN"
| "fadd PInf _ = PInf"
| "fadd NInf _ = NInf"
| "fadd (Num _) y = y"

definition fsub :: "fval \<Rightarrow> fval \<Rightarrow> fval" where
  "fsub a b = fadd a (fneg b)"

text \<open>An infinity scaled by a non-zero finite factor keeps or flips its sign.\<close>

definition scale_inf :: "real \<Rightarrow> fval \<Rightarrow> fval" where
  "scale_inf a i = (if a = 0 then NaN else if 0 < a then i else fneg i)"

fun fmul :: "fval \<Rightarrow> fval \<Rightarrow> fval" where
  "fmul NaN _ = NaN"
| "fmul _ NaN = NaN"
| "fmul (Num a) (Num b) = Num (a * b)"
| "fmul (Num a) i = scale_inf a i"
| "fmul i (Num b) = scale_inf b i"
| "fmul PInf i = i"
| "fmul NInf i = fneg i"

fun fdiv :: "fval \<Rightarrow> fval \<Rightarrow> fval" where
  "fdiv NaN _ = NaN"
| "fdiv _ NaN = NaN"
| "fdiv (Num a) (Num b) =
     (if b = 0 then (if a = 0 then NaN else if 0 < a then PInf else NInf)
      else Num (a / b))"
| "fdiv (Num _) _ = Num 0"
| "fdiv i (Num b) = (if b < 0 then fneg i else i)"
| "fdiv _ _ = NaN"

fun flog10 :: "fval \<Rightarrow> fval" where
  "flog10 (Num a) = (if 0 < a then Num (log 10 a) else if a = 0 then NInf else NaN)"
| "flog10 PInf = PInf"
| "flog10 _ = NaN"

text \<open>
  The reference sum: a left fold of \<open>fadd\<close> from zero. numpy's own summation order is
  modelled in \<open>Summation\<close> and shown equal to it there.
\<close>

definition fsum :: "fval list \<Rightarrow> fval" where
  "fsum xs = foldl fadd (Num 0) xs"

section \<open>Algebra of the special values\<close>

lemma fadd_Num_Num [simp, grid_simps]: "fadd (Num a) (Num b) = Num (a + b)"
  by simp

lemma fadd_NaN_right [simp]: "fadd x NaN = NaN"
  by (cases x) auto

lemma fadd_comm: "fadd x y = fadd y x"
  by (cases x; cases y) auto

lemma fadd_assoc: "fadd (fadd x y) z = fadd x (fadd y z)"
  by (cases x; cases y; cases z) auto

lemma fadd_Num_0 [simp]: "fadd x (Num 0) = x"
  by (cases x) auto

lemma fadd_0_Num [simp]: "fadd (Num 0) x = x"
  by (cases x) auto

lemma fneg_fneg [simp]: "fneg (fneg x) = x"
  by (cases x) auto

lemma is_finite_iff: "is_finite x \<longleftrightarrow> (\<exists>a. x = Num a)"
  by (cases x) auto

lemma fadd_finite_iff [simp]: "is_finite (fadd x y) \<longleftrightarrow> is_finite x \<and> is_finite y"
  by (cases x; cases y) auto

lemma fneg_finite_iff [simp]: "is_finite (fneg x) \<longleftrightarrow> is_finite x"
  by (cases x) auto

lemma fsub_Num_Num [simp, grid_simps]: "fsub (Num a) (Num b) = Num (a - b)"
  by (simp add: fsub_def)

lemma fmul_Num_Num [simp, grid_simps]: "fmul (Num a) (Num b) = Num (a * b)"
  by simp

lemma fmul_Num_1 [simp]: "fmul x (Num 1) = x"
  by (cases x) (auto simp: scale_inf_def)

lemma fmul_Num_0_finite: "is_finite x \<Longrightarrow> fmul x (Num 0) = Num 0"
  by (cases x) auto

lemma fdiv_Num_Num_nonzero [simp, grid_simps]:
  "b \<noteq> 0 \<Longrightarrow> fdiv (Num a) (Num b) = Num (a / b)"
  by simp

lemma fdiv_zero_zero: "fdiv (Num 0) (Num 0) = NaN"
  by simp

lemma flog10_pos [simp, grid_simps]: "0 < a \<Longrightarrow> flog10 (Num a) = Num (log 10 a)"
  by simp

lemma fsum_Num: "fsum (map Num xs) = Num (sum_list xs)"
proof -
  have "foldl fadd (Num c) (map Num xs) = Num (c + sum_list xs)" for c
    by (induction xs arbitrary: c) (auto simp: algebra_simps)
  then show ?thesis by (simp add: fsum_def)
qed

section \<open>Scaling by a positive factor\<close>

text \<open>Converting to another unit multiplies by a positive factor; sums, means and ratios commute with it.\<close>

lemma fadd_scale: "0 < c \<Longrightarrow> fadd (fmul x (Num c)) (fmul y (Num c)) = fmul (fadd x y) (Num c)"
  by (cases x; cases y) (auto simp: scale_inf_def distrib_right)

lemma fsum_scale: "0 < c \<Longrightarrow> fsum (map (\<lambda>a. fmul a (Num c)) xs) = fmul (fsum xs) (Num c)"
proof -
  assume c: "0 < c"
  have "foldl fadd (fmul s (Num c)) (map (\<lambda>a. fmul a (Num c)) xs) = fmul (foldl fadd s xs) (Num c)" for s
    using c by (induction xs arbitrary: s) (simp_all add: fadd_scale)
  from this [of "Num 0"] show ?thesis by (simp add: fsum_def)
qed

lemma fdiv_scale_num: "0 < c \<Longrightarrow> fdiv (fmul x (Num c)) (Num n) = fmul (fdiv x (Num n)) (Num c)"
  by (cases x) (auto simp: scale_inf_def zero_less_mult_iff mult_less_0_iff)

lemma fdiv_scale_both:
  "0 < c \<Longrightarrow> fdiv (fmul (Num b) (fmul a (Num c))) (fmul m (Num c)) = fdiv (fmul (Num b) a) m"
  by (cases a; cases m) (auto simp: scale_inf_def zero_less_mult_iff mult_less_0_iff)

end
