(* ===== verification/Summation.thy ===== *)
theory Summation
  imports Floats
begin

text \<open>
  numpy's summation of a \<open>float64\<close> array (\<open>pairwise_sum\<close> in numpy's
  \<open>loops_utils.h.src\<close>), which \<open>stars.mass.mean()\<close> (line 78) runs: fewer than 8
  elements are added in order; up to \<open>PW_BLOCKSIZE = 128\<close> elements are added in 8
  interleaved accumulators, combined as \<open>((r0+r1)+(r2+r3))+((r4+r5)+(r6+r7))\<close>, and
  the rest after the last full block of 8 is added in order; longer arrays are split at
  \<open>n/2\<close> rounded down to a multiple of 8 and the halves summed recursively. \<open>fmean\<close>
  divides that sum by the count. The reduction machinery around the loop (seeding with
  the first element, buffering) is not modelled. \<open>fval\<close> is made a commutative
  monoid under \<open>fadd\<close> so that the library's \<open>sum_list\<close> laws carry the proof that
  the pairwise order gives the left fold \<open>fsum\<close>.
\<close>

definition pw_split :: "nat \<Rightarrow> nat" where
  "pw_split n = n div 2 - n div 2 mod 8"

definition pw_combine :: "fval list \<Rightarrow> fval" where
  "pw_combine r = fadd (fadd (fadd (r ! 0) (r ! 1)) (fadd (r ! 2) (r ! 3)))
                       (fadd (fadd (r ! 4) (r ! 5)) (fadd (r ! 6) (r ! 7)))"

fun pw_accumulate :: "fval list \<Rightarrow> fval list \<Rightarrow> fval list" where
  "pw_accumulate r xs = (if length xs < 8 then r else pw_accumulate (map2 fadd r (take 8 xs)) (drop 8 xs))"

declare pw_accumulate.simps [simp del]

function pairwise_sum :: "fval list \<Rightarrow> fval" where
  "pairwise_sum xs =
     (let n = length xs in
      if n < 8 then foldl fadd (Num 0) xs
      else if n \<le> 128 then
        foldl fadd (pw_combine (pw_accumulate (take 8 xs) (drop 8 (take (n - n mod 8) xs))))
          (drop (n - n mod 8) xs)
      else fadd (pairwise_sum (take (pw_split n) xs)) (pairwise_sum (drop (pw_split n) xs)))"
  by pat_completeness auto
termination
  by (relation "measure length") (auto simp: pw_split_def Let_def)

declare pairwise_sum.simps [simp del]

definition fmean :: "fval list \<Rightarrow> fval" where
  "fmean xs = fdiv (pairwise_sum xs) (Num (real (length xs)))"

instantiation fval :: comm_monoid_add
begin

definition zero_fval :: fval where
  "zero_fval = Num 0"

definition plus_fval :: "fval \<Rightarrow> fval \<Rightarrow> fval" where
  "plus_fval = fadd"

instance
proof
  fix a b c :: fval
  show "a + b + c = a + (b + c)" by (simp add: plus_fval_def fadd_assoc)
  show "a + b = b + a" by (simp add: plus_fval_def fadd_comm)
  show "0 + a = a" by (simp add: plus_fval_def zero_fval_def)
qed

end

lemma foldl_fadd_sum_list: "foldl fadd a xs = a + sum_list xs"
  by (induction xs arbitrary: a) (simp_all add: plus_fval_def zero_fval_def fadd_assoc)

lemma fsum_sum_list: "fsum xs = sum_list xs"
  by (simp add: fsum_def foldl_fadd_sum_list zero_fval_def plus_fval_def)

lemma sum_list_map2_fadd:
  "length r = length ys \<Longrightarrow> sum_list (map2 fadd r ys) = sum_list r + sum_list ys"
proof (induction r arbitrary: ys)
  case Nil
  then show ?case by simp
next
  case (Cons a r)
  then obtain b ys' where "ys = b # ys'" by (cases ys) auto
  with Cons show ?case by (simp add: plus_fval_def [symmetric] ac_simps)
qed

lemma pw_accumulate_sum:
  "length r = 8 \<Longrightarrow> 8 dvd length xs \<Longrightarrow>
   length (pw_accumulate r xs) = 8 \<and> sum_list (pw_accumulate r xs) = sum_list r + sum_list xs"
proof (induction r xs rule: pw_accumulate.induct)
  case (1 r xs)
  show ?case
  proof (cases "length xs < 8")
    case True
    with "1.prems" have "xs = []" by (auto elim: dvdE)
    then show ?thesis using "1.prems" by (simp add: pw_accumulate.simps)
  next
    case False
    have d: "8 dvd length (drop 8 xs)" using "1.prems"(2) False by (simp add: dvd_diff_nat)
    have "sum_list xs = sum_list (take 8 xs) + sum_list (drop 8 xs)"
      by (metis append_take_drop_id sum_list_append)
    with "1.IH" [OF False] "1.prems" d False show ?thesis
      by (simp add: pw_accumulate.simps sum_list_map2_fadd ac_simps)
  qed
qed

lemma pw_combine_sum: "length r = 8 \<Longrightarrow> pw_combine r = sum_list r"
proof -
  assume r: "length r = 8"
  have "r = map (nth r) [0..<8]" using r map_nth [of r] by simp
  then have "sum_list r = sum_list (map (nth r) [0..<8])" by simp
  also have "\<dots> = pw_combine r"
    by (simp add: pw_combine_def upt_rec plus_fval_def [symmetric] ac_simps eval_nat_numeral)
  finally show ?thesis by simp
qed

lemma pairwise_sum_sum_list: "pairwise_sum xs = sum_list xs"
proof (induction xs rule: pairwise_sum.induct)
  case (1 xs)
  define n where "n = length xs"
  show ?case
  proof (cases "n < 8")
    case True
    then show ?thesis
      by (simp add: pairwise_sum.simps [of xs] n_def [symmetric] foldl_fadd_sum_list zero_fval_def [symmetric])
  next
    case small: False
    show ?thesis
    proof (cases "n \<le> 128")
      case True
      define m where "m = n - n mod 8"
      have m: "m = 8 * (n div 8)" by (simp add: m_def minus_mod_eq_mult_div)
      have "0 < n div 8" using small by simp
      then have m8: "8 \<le> m" "8 dvd m" "m \<le> n" by (auto simp: m m_def [symmetric])
      have acc: "length (pw_accumulate (take 8 xs) (drop 8 (take m xs))) = 8 \<and>
            sum_list (pw_accumulate (take 8 xs) (drop 8 (take m xs))) =
            sum_list (take 8 xs) + sum_list (drop 8 (take m xs))"
        using m8 small by (intro pw_accumulate_sum) (simp_all add: n_def min_def dvd_diff_nat)
      have "sum_list xs = sum_list (take 8 (take m xs)) + sum_list (drop 8 (take m xs)) + sum_list (drop m xs)"
        by (metis append_take_drop_id sum_list_append)
      moreover have "take 8 (take m xs) = take 8 xs" using m8 by (simp add: min_def)
      ultimately show ?thesis
        using small True acc
        by (simp add: pairwise_sum.simps [of xs] n_def [symmetric] m_def [symmetric] foldl_fadd_sum_list
            pw_combine_sum)
    next
      case False
      then show ?thesis
        using "1.IH" small
        by (simp add: pairwise_sum.simps [of xs] n_def [symmetric] plus_fval_def [symmetric]
            flip: sum_list_append)
    qed
  qed
qed

lemma fmean_fsum: "fmean xs = fdiv (fsum xs) (Num (real (length xs)))"
  by (simp add: fmean_def pairwise_sum_sum_list fsum_sum_list)

lemma fmean_Num:
  "xs \<noteq> [] \<Longrightarrow> fmean (map Num xs) = Num (sum_list xs / real (length xs))"
  by (simp add: fmean_fsum fsum_Num)

lemma fmean_scale: "0 < c \<Longrightarrow> fmean (map (\<lambda>a. fmul a (Num c)) xs) = fmul (fmean xs) (Num c)"
  by (simp add: fmean_fsum fsum_scale fdiv_scale_num)

section \<open>numpy's order against the reference\<close>

lemma pairwise_sum_eq_fsum: "pairwise_sum xs = fsum xs"
  by (simp add: pairwise_sum_sum_list fsum_sum_list)

text \<open>
  Termination of \<open>pairwise_sum\<close>: above the block size the split point is a positive
  multiple of 8 no larger than half the array, so both recursive calls are on non-empty,
  shorter parts.
\<close>

lemma pw_split_inside:
  assumes "128 < n"
  shows "0 < pw_split n \<and> pw_split n < n \<and> 8 dvd pw_split n \<and> pw_split n \<le> n div 2"
proof -
  have "n div 2 mod 8 < 8" by simp
  moreover have "64 \<le> n div 2" using assms by simp
  ultimately show ?thesis
    by (auto simp: pw_split_def minus_mod_eq_mult_div)
qed

end
