(* ===== verification/Units.thy ===== *)
theory Units
  imports Summation
begin

text \<open>
  The part of AMUSE's unit system (\<open>amuse.units\<close>) that the module uses: a unit has a
  name, a conversion factor to SI and a dimension; a quantity is a number, or a vector of
  numbers, tagged with a unit. \<open>value_in\<close> converts to another unit of the same
  dimension and raises \<open>IncompatibleUnitsException\<close> otherwise; the in-place addition
  \<open>x += q\<close> of a vector and a scalar quantity converts \<open>q\<close> to the vector's unit and
  adds it to every element; \<open>as_string_in\<close> prints the converted number followed by the
  unit's name. Python's conversion of a float to text is a parameter \<open>repr\<close>.
\<close>

datatype dimension = Length | Speed | Time | Mass | MassDensity | Dimensionless

record phys_unit =
  uname :: string
  factor :: real
  dim :: dimension

text \<open>The units \<open>src/plotting_class.py\<close> names, with their SI factors.\<close>

definition parsec :: phys_unit where
  "parsec = \<lparr>uname = ''parsec'', factor = 30856775814913673, dim = Length\<rparr>"

definition kms :: phys_unit where
  "kms = \<lparr>uname = ''km / s'', factor = 1000, dim = Speed\<rparr>"

definition myr :: phys_unit where
  "myr = \<lparr>uname = ''Myr'', factor = 31557600000000, dim = Time\<rparr>"

definition amu_per_cm3 :: phys_unit where
  "amu_per_cm3 = \<lparr>uname = ''amu / (cm**3)'', factor = 166053906660 / 10 ^ 32, dim = MassDensity\<rparr>"

definition msun :: phys_unit where
  "msun = \<lparr>uname = ''MSun'', factor = 198892 * 10 ^ 25, dim = Mass\<rparr>"

record quantity =
  qval :: fval
  qunit :: phys_unit

record qvec =
  qvals :: "fval list"
  vunit :: phys_unit

text \<open>A 2-D array quantity, such as the density grid (rows of numbers, one unit).\<close>

record qgrid =
  gvals :: "fval list list"
  gunit :: phys_unit

definition conversion :: "phys_unit \<Rightarrow> phys_unit \<Rightarrow> py_error + real" where
  "conversion u v =
     (if dim u = dim v then Inr (factor u / factor v)
      else Inl (IncompatibleUnits (uname u) (uname v)))"

definition value_in :: "quantity \<Rightarrow> phys_unit \<Rightarrow> py_error + fval" where
  "value_in q u = ebind (conversion (qunit q) u) (\<lambda>c. Inr (fmul (qval q) (Num c)))"

definition qvec_value_in :: "qvec \<Rightarrow> phys_unit \<Rightarrow> py_error + fval list" where
  "qvec_value_in v u = ebind (conversion (vunit v) u) (\<lambda>c. Inr (map (\<lambda>a. fmul a (Num c)) (qvals v)))"

definition qgrid_value_in :: "qgrid \<Rightarrow> phys_unit \<Rightarrow> py_error + fval list list" where
  "qgrid_value_in g u =
     ebind (conversion (gunit g) u) (\<lambda>c. Inr (map (map (\<lambda>a. fmul a (Num c))) (gvals g)))"

definition qvec_iadd :: "qvec \<Rightarrow> quantity \<Rightarrow> py_error + qvec" where
  "qvec_iadd v q = ebind (value_in q (vunit v)) (\<lambda>d. Inr (v\<lparr>qvals := map (\<lambda>a. fadd a d) (qvals v)\<rparr>))"

definition as_string_in :: "(fval \<Rightarrow> string) \<Rightarrow> quantity \<Rightarrow> phys_unit \<Rightarrow> py_error + string" where
  "as_string_in repr q u = ebind (value_in q u) (\<lambda>a. Inr (repr a @ '' '' @ uname u))"

section \<open>Conversion laws\<close>

lemma conversion_same_dim [simp]: "dim u = dim v \<Longrightarrow> conversion u v = Inr (factor u / factor v)"
  by (simp add: conversion_def)

lemma conversion_other_dim [simp]:
  "dim u \<noteq> dim v \<Longrightarrow> conversion u v = Inl (IncompatibleUnits (uname u) (uname v))"
  by (simp add: conversion_def)

lemma unit_factors [simp]:
  "factor parsec = 30856775814913673" "dim parsec = Length" "uname parsec = ''parsec''"
  "factor kms = 1000" "dim kms = Speed"
  "factor myr = 31557600000000" "dim myr = Time" "uname myr = ''Myr''"
  "factor amu_per_cm3 = 166053906660 / 10 ^ 32" "dim amu_per_cm3 = MassDensity"
  "dim msun = Mass"
  by (simp_all add: parsec_def kms_def myr_def amu_per_cm3_def msun_def)

text \<open>A quantity converted to its own unit is its number (all units have non-zero factors).\<close>

lemma value_in_own_unit:
  "factor (qunit q) \<noteq> 0 \<Longrightarrow> value_in q (qunit q) = Inr (qval q)"
  by (simp add: value_in_def)

lemma qvec_value_in_own_unit:
  "factor (vunit v) \<noteq> 0 \<Longrightarrow> qvec_value_in v (vunit v) = Inr (qvals v)"
  by (simp add: qvec_value_in_def)

lemma qgrid_value_in_own_unit:
  "factor (gunit g) \<noteq> 0 \<Longrightarrow> qgrid_value_in g (gunit g) = Inr (gvals g)"
proof -
  have "map (map (\<lambda>a. fmul a (Num 1))) xss = xss" for xss :: "fval list list"
    by (simp add: map_idI)
  then show "factor (gunit g) \<noteq> 0 \<Longrightarrow> ?thesis" by (simp add: qgrid_value_in_def)
qed

lemma value_in_Inr_iff:
  "value_in q u = Inr a \<longleftrightarrow> dim (qunit q) = dim u \<and> a = fmul (qval q) (Num (factor (qunit q) / factor u))"
  by (auto simp: value_in_def conversion_def)

lemma value_in_Inl_iff:
  "value_in q u = Inl e \<longleftrightarrow> dim (qunit q) \<noteq> dim u \<and> e = IncompatibleUnits (uname (qunit q)) (uname u)"
  by (auto simp: value_in_def conversion_def)

lemma qvec_iadd_Inr_iff:
  "qvec_iadd v q = Inr w \<longleftrightarrow>
     (\<exists>d. value_in q (vunit v) = Inr d \<and> w = v\<lparr>qvals := map (\<lambda>a. fadd a d) (qvals v)\<rparr>)"
  by (auto simp: qvec_iadd_def ebind_eq_Inr_iff)

lemma qvec_iadd_length:
  "qvec_iadd v q = Inr w \<Longrightarrow> length (qvals w) = length (qvals v) \<and> vunit w = vunit v"
  by (auto simp: qvec_iadd_Inr_iff)

end
