(* ===== verification/Grid.thy ===== *)
theory Grid
  imports Units
begin

text \<open>
  The grid sampler, \<open>make_map\<close> of \<open>src/plotting_class.py\<close> (lines 10--34): index
  generation with \<open>numpy.indices\<close>, the map from indices to physical coordinates, the
  optional planar offsets, the call of the hydrodynamics code at the sample points, the
  unpacking of its five result arrays and the reshape of the density into an
  \<open>(N+1) \<times> (N+1)\<close> grid. The hydrodynamics code is a parameter of type
  \<open>hydro_eval\<close>, with the call signature of \<open>get_hydro_state_at_point\<close>.
\<close>

section \<open>Definitions\<close>

text \<open>\<open>numpy.indices((r, c))\<close>: the row index and the column index of every cell.\<close>

definition indices :: "nat \<Rightarrow> nat \<Rightarrow> nat list list \<times> nat list list" where
  "indices r c = (map (\<lambda>i. replicate c i) [0..<r], map (\<lambda>i. [0..<c]) [0..<r])"

text \<open>\<open>L*(x.flatten()-N/2.)/N\<close> for one index: \<open>N/2.\<close> is float division.\<close>

definition grid_coord :: "real \<Rightarrow> nat \<Rightarrow> nat \<Rightarrow> fval" where
  "grid_coord L N i = fdiv (fmul (Num L) (fsub (Num (real i)) (Num (real N / 2)))) (Num (real N))"

text \<open>\<open>if offset is not None: v += offset\<close>.\<close>

definition add_offset :: "qvec \<Rightarrow> quantity option \<Rightarrow> py_error + qvec" where
  "add_offset v off = (case off of None \<Rightarrow> Inr v | Some q \<Rightarrow> qvec_iadd v q)"

text \<open>The six arguments of \<open>get_hydro_state_at_point\<close>.\<close>

record probe =
  px :: qvec
  py :: qvec
  pz :: qvec
  pvx :: qvec
  pvy :: qvec
  pvz :: qvec

type_synonym hydro_eval = "qvec \<Rightarrow> qvec \<Rightarrow> qvec \<Rightarrow> qvec \<Rightarrow> qvec \<Rightarrow> qvec \<Rightarrow> py_error + qvec list"

text \<open>Lines 12--29: the sample points, with units attached and the offsets applied.\<close>

definition sample_coords :: "nat \<Rightarrow> real \<Rightarrow> quantity option \<Rightarrow> quantity option \<Rightarrow> py_error + probe" where
  "sample_coords N L offset_x offset_y =
     (let (xi, yi) = indices (N + 1) (N + 1);
          x = map (grid_coord L N) (concat xi);
          y = map (grid_coord L N) (concat yi);
          z = map (\<lambda>a. fmul a (Num 0)) x;
          vx = map (fmul (Num 0)) x;
          vy = map (fmul (Num 0)) x;
          vz = map (fmul (Num 0)) x
      in ebind (add_offset \<lparr>qvals = x, vunit = parsec\<rparr> offset_x) (\<lambda>xq.
         ebind (add_offset \<lparr>qvals = y, vunit = parsec\<rparr> offset_y) (\<lambda>yq.
         Inr \<lparr>px = xq, py = yq, pz = \<lparr>qvals = z, vunit = parsec\<rparr>,
              pvx = \<lparr>qvals = vx, vunit = kms\<rparr>, pvy = \<lparr>qvals = vy, vunit = kms\<rparr>,
              pvz = \<lparr>qvals = vz, vunit = kms\<rparr>\<rparr>)))"

text \<open>\<open>rho, rhovx, rhovy, rhovz, rhoe = ...\<close>: Python's unpacking of exactly five values.\<close>

definition unpack5 :: "'a list \<Rightarrow> py_error + ('a \<times> 'a \<times> 'a \<times> 'a \<times> 'a)" where
  "unpack5 xs = (case xs of [a, b, c, d, e] \<Rightarrow> Inr (a, b, c, d, e) | _ \<Rightarrow> Inl (UnpackError (length xs)))"

text \<open>numpy's row-major \<open>reshape((r, c))\<close> of a flat array.\<close>

fun chunks :: "nat \<Rightarrow> nat \<Rightarrow> 'a list \<Rightarrow> 'a list list" where
  "chunks c 0 xs = []"
| "chunks c (Suc r) xs = take c xs # chunks c r (drop c xs)"

definition reshape :: "nat \<Rightarrow> nat \<Rightarrow> 'a list \<Rightarrow> py_error + 'a list list" where
  "reshape r c xs =
     (if length xs = r * c then Inr (chunks c r xs) else Inl (ReshapeError (length xs) r c))"

definition make_map :: "hydro_eval \<Rightarrow> nat \<Rightarrow> real \<Rightarrow> quantity option \<Rightarrow> quantity option \<Rightarrow> py_error + qgrid" where
  "make_map sph N L offset_x offset_y =
     ebind (sample_coords N L offset_x offset_y) (\<lambda>p.
     ebind (sph (px p) (py p) (pz p) (pvx p) (pvy p) (pvz p)) (\<lambda>res.
     ebind (unpack5 res) (\<lambda>(rho, rhovx, rhovy, rhovz, rhoe).
     ebind (reshape (N + 1) (N + 1) (qvals rho)) (\<lambda>g.
     Inr \<lparr>gvals = g, gunit = vunit rho\<rparr>))))"

section \<open>The contract of the hydrodynamics code\<close>

text \<open>
  \<open>get_hydro_state_at_point\<close> answers equal-length coordinate arrays with five arrays,
  density first, of that length.
\<close>

definition hydro_contract :: "hydro_eval \<Rightarrow> bool" where
  "hydro_contract sph \<longleftrightarrow>
     (\<forall>x y z vx vy vz. length (qvals y) = length (qvals x) \<longrightarrow>
        (\<exists>rho rest. sph x y z vx vy vz = Inr (rho # rest) \<and> length rest = 4 \<and>
                    length (qvals rho) = length (qvals x)))"

text \<open>
  A code that samples a density field \<open>f\<close> (of the coordinates in the unit of the
  arguments) and reports it in unit \<open>u\<close>.
\<close>

definition samples_field :: "hydro_eval \<Rightarrow> (fval \<Rightarrow> fval \<Rightarrow> fval) \<Rightarrow> phys_unit \<Rightarrow> bool" where
  "samples_field sph f u \<longleftrightarrow>
     (\<forall>x y z vx vy vz. length (qvals y) = length (qvals x) \<longrightarrow>
        (\<exists>rest. sph x y z vx vy vz = Inr (\<lparr>qvals = map2 f (qvals x) (qvals y), vunit = u\<rparr> # rest) \<and>
               length rest = 4))"

text \<open>The offset of an axis in parsec, zero when none is given.\<close>

definition offset_pc :: "quantity option \<Rightarrow> py_error + fval" where
  "offset_pc off = (case off of None \<Rightarrow> Inr (Num 0) | Some q \<Rightarrow> value_in q parsec)"

text \<open>The coordinate of sample \<open>i\<close> along an axis with offset \<open>d\<close> (in parsec).\<close>

definition sample_at :: "real \<Rightarrow> nat \<Rightarrow> fval \<Rightarrow> nat \<Rightarrow> fval" where
  "sample_at L N d i = fadd (grid_coord L N i) d"

text \<open>The two coordinate grids that \<open>numpy.indices\<close> and the coordinate map produce.\<close>

definition xgrid :: "real \<Rightarrow> nat \<Rightarrow> fval \<Rightarrow> fval list list" where
  "xgrid L N d = map (\<lambda>i. replicate (N + 1) (sample_at L N d i)) [0..<N + 1]"

definition ygrid :: "real \<Rightarrow> nat \<Rightarrow> fval \<Rightarrow> fval list list" where
  "ygrid L N d = map (\<lambda>i. map (sample_at L N d) [0..<N + 1]) [0..<N + 1]"

text \<open>The density grid a field \<open>f\<close> gives: row \<open>i\<close> is \<open>x\<close> sample \<open>i\<close>, column \<open>j\<close> is \<open>y\<close> sample \<open>j\<close>.\<close>

definition field_grid :: "(fval \<Rightarrow> fval \<Rightarrow> fval) \<Rightarrow> real \<Rightarrow> nat \<Rightarrow> fval \<Rightarrow> fval \<Rightarrow> fval list list" where
  "field_grid f L N dx dy =
     map (\<lambda>i. map (\<lambda>j. f (sample_at L N dx i) (sample_at L N dy j)) [0..<N + 1]) [0..<N + 1]"

text \<open>
  A hydrodynamics code that samples a field \<open>f\<close>: density \<open>f x y\<close> in unit \<open>u\<close>, and
  zero momentum and energy densities. It is the evaluator the scenarios run with.
\<close>

definition field_eval :: "(fval \<Rightarrow> fval \<Rightarrow> fval) \<Rightarrow> phys_unit \<Rightarrow> hydro_eval" where
  "field_eval f u x y z vx vy vz =
     (let zero = \<lparr>qvals = map (\<lambda>_. Num 0) (qvals x), vunit = u\<rparr>
      in Inr [\<lparr>qvals = map2 f (qvals x) (qvals y), vunit = u\<rparr>, zero, zero, zero, zero])"

section \<open>Reshape and flatten\<close>

lemma chunks_concat: "rect r c G \<Longrightarrow> chunks c r (concat G) = G"
proof (induction G arbitrary: r)
  case Nil
  then show ?case by simp
next
  case (Cons row G)
  then obtain k where "r = Suc k" "length row = c" "rect k c G" by auto
  with Cons.IH show ?case by simp
qed

lemma concat_chunks: "length xs = r * c \<Longrightarrow> concat (chunks c r xs) = xs"
  by (induction r arbitrary: xs) auto

lemma rect_chunks: "length xs = r * c \<Longrightarrow> rect r c (chunks c r xs)"
  by (induction r arbitrary: xs) auto

lemma reshape_concat: "rect r c G \<Longrightarrow> reshape r c (concat G) = Inr G"
  by (simp add: reshape_def length_concat_rect chunks_concat)

lemma reshape_Inr_iff: "reshape r c xs = Inr G \<longleftrightarrow> length xs = r * c \<and> G = chunks c r xs"
  by (auto simp: reshape_def)

lemma unpack5_Cons: "length rest = 4 \<Longrightarrow> \<exists>a b c d. unpack5 (rho # rest) = Inr (rho, a, b, c, d)"
  by (auto simp: unpack5_def numeral_eq_Suc length_Suc_conv)

lemma unpack5_Inr_length: "unpack5 xs = Inr t \<Longrightarrow> length xs = 5"
  by (auto simp: unpack5_def split: list.splits)

section \<open>Coordinates\<close>

lemma grid_coord_pos [grid_simps]:
  "0 < N \<Longrightarrow> grid_coord L N i = Num (L * (real i - real N / 2) / real N)"
  by (simp add: grid_coord_def)

lemma sample_at_zero_size: "0 < N \<Longrightarrow> sample_at 0 N (Num a) i = Num a"
  by (simp add: sample_at_def grid_coord_def)

lemma rect_xgrid: "rect (N + 1) (N + 1) (xgrid L N d)"
  and rect_ygrid: "rect (N + 1) (N + 1) (ygrid L N d)"
  and rect_field_grid: "rect (N + 1) (N + 1) (field_grid f L N dx dy)"
  by (simp_all add: xgrid_def ygrid_def field_grid_def rect_def list_all_iff)

lemma length_concat_xgrid: "length (concat (xgrid L N d)) = (N + 1) * (N + 1)"
  and length_concat_ygrid: "length (concat (ygrid L N d)) = (N + 1) * (N + 1)"
  by (rule length_concat_rect, rule rect_xgrid, rule length_concat_rect, rule rect_ygrid)

lemma map2_replicate_map:
  "length xs = n \<Longrightarrow> map2 f (replicate n a) (map g xs) = map (\<lambda>j. f a (g j)) xs"
  by (induction xs arbitrary: n) (auto simp: length_Suc_conv)

lemma map2_xgrid_ygrid: "map2 (map2 f) (xgrid L N dx) (ygrid L N dy) = field_grid f L N dx dy"
  by (rule nth_equalityI)
    (simp_all add: xgrid_def ygrid_def field_grid_def map2_replicate_map del: upt_Suc replicate_Suc)

lemma add_offset_parsec:
  "offset_pc off = Inr d \<Longrightarrow>
   add_offset \<lparr>qvals = v, vunit = parsec\<rparr> off = Inr \<lparr>qvals = map (\<lambda>a. fadd a d) v, vunit = parsec\<rparr>"
  by (cases off) (auto simp: offset_pc_def add_offset_def qvec_iadd_def map_idI)

lemma add_offset_error:
  "offset_pc off = Inl e \<Longrightarrow> add_offset \<lparr>qvals = v, vunit = parsec\<rparr> off = Inl e"
  by (cases off) (auto simp: offset_pc_def add_offset_def qvec_iadd_def)

lemma sample_coords_Inr:
  assumes "offset_pc ox = Inr dx" "offset_pc oy = Inr dy"
  shows "\<exists>p. sample_coords N L ox oy = Inr p \<and>
           px p = \<lparr>qvals = concat (xgrid L N dx), vunit = parsec\<rparr> \<and>
           py p = \<lparr>qvals = concat (ygrid L N dy), vunit = parsec\<rparr>"
  using assms
  by (simp add: sample_coords_def indices_def add_offset_parsec map_concat xgrid_def ygrid_def
      sample_at_def [abs_def] comp_def del: upt_Suc)

lemma sample_coords_Inl_x:
  "offset_pc ox = Inl e \<Longrightarrow> sample_coords N L ox oy = Inl e"
  by (simp add: sample_coords_def indices_def add_offset_error)

lemma sample_coords_Inl_y:
  "offset_pc ox = Inr dx \<Longrightarrow> offset_pc oy = Inl e \<Longrightarrow> sample_coords N L ox oy = Inl e"
  by (simp add: sample_coords_def indices_def add_offset_error add_offset_parsec)

lemma offset_pc_None: "offset_pc None = Inr (Num 0)"
  by (simp add: offset_pc_def)

lemma field_grid_nth:
  "i \<le> N \<Longrightarrow> j \<le> N \<Longrightarrow> field_grid f L N dx dy ! i ! j = f (sample_at L N dx i) (sample_at L N dy j)"
  by (simp add: field_grid_def nth_append del: upt_Suc)

lemma transpose_field_grid_nth:
  assumes "r \<le> N" "c \<le> N"
  shows "r < length (transpose (field_grid f L N dx dy)) \<and>
         c < length (transpose (field_grid f L N dx dy) ! r) \<and>
         transpose (field_grid f L N dx dy) ! r ! c = f (sample_at L N dx c) (sample_at L N dy r)"
proof -
  have rect: "rect (N + 1) (N + 1) (field_grid f L N dx dy)" by (rule rect_field_grid)
  have tr: "rect (N + 1) (N + 1) (transpose (field_grid f L N dx dy))"
    using rect_transpose [OF rect] by simp
  have "transpose (field_grid f L N dx dy) ! r ! c = field_grid f L N dx dy ! c ! r"
    using nth_nth_transpose_rect [OF rect] assms by simp
  with tr assms show ?thesis
    by (simp add: field_grid_nth rect_def list_all_length)
qed

section \<open>The sampler\<close>

lemma samples_field_field_eval: "samples_field (field_eval f u) f u"
  by (simp add: samples_field_def field_eval_def Let_def)

lemma make_map_field:
  assumes field: "samples_field sph f u"
    and ox: "offset_pc ox = Inr dx" and oy: "offset_pc oy = Inr dy"
  shows "make_map sph N L ox oy = Inr \<lparr>gvals = field_grid f L N dx dy, gunit = u\<rparr>"
proof -
  obtain p where p: "sample_coords N L ox oy = Inr p"
    and x: "px p = \<lparr>qvals = concat (xgrid L N dx), vunit = parsec\<rparr>"
    and y: "py p = \<lparr>qvals = concat (ygrid L N dy), vunit = parsec\<rparr>"
    using sample_coords_Inr [OF ox oy] by blast
  have "length (qvals (py p)) = length (qvals (px p))"
    by (simp add: x y length_concat_xgrid length_concat_ygrid)
  with field obtain rest where
    call: "sph (px p) (py p) (pz p) (pvx p) (pvy p) (pvz p) =
             Inr (\<lparr>qvals = map2 f (qvals (px p)) (qvals (py p)), vunit = u\<rparr> # rest)"
    and rest: "length rest = 4"
    unfolding samples_field_def by blast
  have dens: "map2 f (qvals (px p)) (qvals (py p)) = concat (field_grid f L N dx dy)"
    by (simp add: x y map2_concat_rect [OF rect_xgrid rect_ygrid] map2_xgrid_ygrid)
  obtain a b c d where "unpack5 (\<lparr>qvals = concat (field_grid f L N dx dy), vunit = u\<rparr> # rest) =
      Inr (\<lparr>qvals = concat (field_grid f L N dx dy), vunit = u\<rparr>, a, b, c, d)"
    using unpack5_Cons [OF rest] by blast
  moreover have "reshape (N + 1) (N + 1) (concat (field_grid f L N dx dy)) = Inr (field_grid f L N dx dy)"
    by (rule reshape_concat [OF rect_field_grid])
  ultimately show ?thesis
    using p call dens by (simp add: make_map_def del: One_nat_def add_Suc_right)
qed

section \<open>Properties of the sampler\<close>


text \<open>C31: The sample coordinates are symmetric about the centre: for N > 0, sample N - i is the negation of sample i (in particular sample 0 and sample N are additive inverses, since N/2. is float division).\<close>

theorem grid_coord_symmetric:
  assumes "0 < N" "i \<le> N"
  shows "grid_coord L N (N - i) = fneg (grid_coord L N i)"
  using assms by (simp add: grid_coord_pos of_nat_diff field_simps)

theorem grid_coord_symmetric_witness:
  "0 < (2::nat) \<and> (0::nat) \<le> 2 \<and> grid_coord 4 2 (2 - 0) = fneg (grid_coord 4 2 0)"
  using grid_coord_symmetric [of 2 0 4] by simp

text \<open>C33: The samples are evenly spaced: for N > 0 consecutive coordinates differ by exactly L/N.\<close>

theorem grid_coord_spacing:
  assumes "0 < N"
  shows "grid_coord L N (Suc i) = fadd (grid_coord L N i) (Num (L / real N))"
  using assms by (simp add: grid_coord_pos field_simps)

theorem grid_coord_spacing_witness:
  "0 < (4::nat) \<and> grid_coord 2 4 1 = fadd (grid_coord 2 4 0) (Num (2 / real (4::nat)))"
  using grid_coord_spacing [of 4 2 0] by simp

text \<open>C32: For N > 0 the samples run from exactly -L/2 (index 0) to exactly L/2 (index N), whatever N is.\<close>

theorem grid_coord_span:
  assumes "0 < N"
  shows "grid_coord L N 0 = Num (- (L / 2)) \<and> grid_coord L N N = Num (L / 2)"
  using assms by (simp add: grid_coord_pos field_simps)

theorem grid_coord_span_witness:
  "0 < (3::nat) \<and> grid_coord 2 3 0 = Num (- (2 / 2)) \<and> grid_coord 2 3 3 = Num (2 / 2)"
  using grid_coord_span [of 3 2] by simp

lemma fmul_zero_grid_coord: "0 < N \<Longrightarrow> fmul (grid_coord L N i) (Num 0) = Num 0"
  and fmul_zero_grid_coord': "0 < N \<Longrightarrow> fmul (Num 0) (grid_coord L N i) = Num 0"
  by (simp_all add: grid_coord_pos)

text \<open>C34: For N > 0 the sampled plane is the mid-plane z = 0 (in parsec) and every velocity component is 0 (in km/s), at all (N+1)^2 points.\<close>

theorem sample_coords_mid_plane:
  assumes "0 < N" "sample_coords N L ox oy = Inr p"
  shows "qvals (pz p) = replicate ((N + 1) * (N + 1)) (Num 0) \<and> vunit (pz p) = parsec \<and>
         qvals (pvx p) = replicate ((N + 1) * (N + 1)) (Num 0) \<and> vunit (pvx p) = kms \<and>
         qvals (pvy p) = qvals (pvx p) \<and> qvals (pvz p) = qvals (pvx p)"
proof -
  have len: "length (concat (fst (indices (N + 1) (N + 1)))) = (N + 1) * (N + 1)"
    by (rule length_concat_rect) (simp add: indices_def rect_def list_all_iff)
  have "map f (concat (fst (indices (N + 1) (N + 1)))) = replicate ((N + 1) * (N + 1)) c"
    if "\<And>i. f i = c" for f :: "nat \<Rightarrow> fval" and c
  proof -
    have "map f (concat (fst (indices (N + 1) (N + 1)))) = replicate (length (concat (fst (indices (N + 1) (N + 1))))) c"
      using that by (rule map_eq_replicate_length)
    then show ?thesis unfolding len .
  qed
  then show ?thesis
    using assms
    by (auto simp: sample_coords_def ebind_eq_Inr_iff fmul_zero_grid_coord fmul_zero_grid_coord' comp_def
        split: prod.splits)
qed

theorem sample_coords_mid_plane_witness:
  "\<exists>p. 0 < (1::nat) \<and> sample_coords 1 2 None None = Inr p \<and>
       qvals (pz p) = [Num 0, Num 0, Num 0, Num 0] \<and> qvals (pvx p) = [Num 0, Num 0, Num 0, Num 0]"
proof -
  obtain p where p: "sample_coords 1 2 None None = Inr p"
    using sample_coords_Inr [OF offset_pc_None offset_pc_None, of 1 2] by blast
  show ?thesis using sample_coords_mid_plane [OF _ p] p by auto
qed

lemma hydro_contract_field_eval: "hydro_contract (field_eval f u)"
  by (simp add: hydro_contract_def field_eval_def Let_def)

lemma sample_coords_Inr_offsets:
  "sample_coords N L ox oy = Inr p \<Longrightarrow> \<exists>dx dy. offset_pc ox = Inr dx \<and> offset_pc oy = Inr dy"
  by (cases "offset_pc ox"; cases "offset_pc oy") (auto simp: sample_coords_Inl_x sample_coords_Inl_y)

text \<open>C3: For an evaluator that keeps its contract and offsets of length dimension, make_map returns a density grid of shape (N+1, N+1).\<close>

theorem make_map_shape:
  assumes contract: "hydro_contract sph"
    and ox: "offset_pc ox = Inr dx" and oy: "offset_pc oy = Inr dy"
  shows "\<exists>g. make_map sph N L ox oy = Inr g \<and> rect (N + 1) (N + 1) (gvals g)"
proof -
  obtain p where p: "sample_coords N L ox oy = Inr p"
    and x: "px p = \<lparr>qvals = concat (xgrid L N dx), vunit = parsec\<rparr>"
    and y: "py p = \<lparr>qvals = concat (ygrid L N dy), vunit = parsec\<rparr>"
    using sample_coords_Inr [OF ox oy] by blast
  have "length (qvals (py p)) = length (qvals (px p))"
    by (simp add: x y length_concat_xgrid length_concat_ygrid)
  with contract obtain rho rest where
    call: "sph (px p) (py p) (pz p) (pvx p) (pvy p) (pvz p) = Inr (rho # rest)"
    and rest: "length rest = 4" and lr: "length (qvals rho) = length (qvals (px p))"
    unfolding hydro_contract_def by blast
  obtain a b c d where u: "unpack5 (rho # rest) = Inr (rho, a, b, c, d)"
    using unpack5_Cons [OF rest] by blast
  have len: "length (qvals rho) = (N + 1) * (N + 1)"
    using lr by (simp only: x qvec.select_convs length_concat_xgrid)
  then have "reshape (N + 1) (N + 1) (qvals rho) = Inr (chunks (N + 1) (N + 1) (qvals rho))"
    by (simp add: reshape_def)
  moreover have "rect (N + 1) (N + 1) (chunks (N + 1) (N + 1) (qvals rho))"
    using len by (rule rect_chunks)
  ultimately show ?thesis
    using p call u by (simp add: make_map_def del: One_nat_def add_Suc_right)
qed

theorem make_map_shape_witness:
  "hydro_contract (field_eval (\<lambda>_ _. Num 1) amu_per_cm3) \<and> offset_pc None = Inr (Num 0) \<and>
   (\<exists>g. make_map (field_eval (\<lambda>_ _. Num 1) amu_per_cm3) 2 2 None None = Inr g \<and> rect 3 3 (gvals g))"
  using make_map_shape [OF hydro_contract_field_eval offset_pc_None offset_pc_None, of "\<lambda>_ _. Num 1" amu_per_cm3 2 2]
    hydro_contract_field_eval offset_pc_None
  by (simp add: numeral_eq_Suc)

text \<open>C2: Entry (i, j) of the returned grid is the density the evaluator reports at x sample i and y sample j (offsets added), in the evaluator's unit: the reshape is row-major and matches the flattening of numpy.indices.\<close>

theorem make_map_entry:
  assumes "samples_field sph f u" "offset_pc ox = Inr dx" "offset_pc oy = Inr dy"
    and "make_map sph N L ox oy = Inr g" "i \<le> N" "j \<le> N"
  shows "gvals g ! i ! j = f (sample_at L N dx i) (sample_at L N dy j) \<and> gunit g = u"
proof -
  from assms(1-3) have "g = \<lparr>gvals = field_grid f L N dx dy, gunit = u\<rparr>"
    using assms(4) by (simp add: make_map_field)
  with assms(5,6) show ?thesis
    by (simp add: field_grid_def nth_append del: upt_Suc)
qed

theorem make_map_entry_witness:
  "samples_field (field_eval fsub amu_per_cm3) fsub amu_per_cm3 \<and> offset_pc None = Inr (Num 0) \<and>
   make_map (field_eval fsub amu_per_cm3) 2 2 None None =
     Inr \<lparr>gvals = field_grid fsub 2 2 (Num 0) (Num 0), gunit = amu_per_cm3\<rparr> \<and>
   (2::nat) \<le> 2 \<and> (0::nat) \<le> 2 \<and>
   gvals \<lparr>gvals = field_grid fsub 2 2 (Num 0) (Num 0), gunit = amu_per_cm3\<rparr> ! 2 ! 0 = Num 2"
proof -
  have ev: "make_map (field_eval fsub amu_per_cm3) 2 2 None None =
     Inr \<lparr>gvals = field_grid fsub 2 2 (Num 0) (Num 0), gunit = amu_per_cm3\<rparr>"
    by (rule make_map_field [OF samples_field_field_eval offset_pc_None offset_pc_None])
  from make_map_entry [OF samples_field_field_eval offset_pc_None offset_pc_None ev, of 2 0]
  have "gvals \<lparr>gvals = field_grid fsub 2 2 (Num 0) (Num 0), gunit = amu_per_cm3\<rparr> ! 2 ! 0 =
          fsub (sample_at 2 2 (Num 0) 2) (sample_at 2 2 (Num 0) 0)"
    by simp
  also have "\<dots> = Num 2" by (simp add: sample_at_def grid_coord_pos)
  finally show ?thesis using ev samples_field_field_eval offset_pc_None by simp
qed

text \<open>C30: A given offset_x shifts every x coordinate passed to the evaluator by exactly the offset in parsec and leaves the y coordinates unchanged.\<close>

theorem sample_coords_offset_x:
  assumes "offset_pc (Some q) = Inr d"
    and "sample_coords N L (Some q) oy = Inr p" and "sample_coords N L None oy = Inr p0"
  shows "qvals (px p) = map (\<lambda>a. fadd a d) (qvals (px p0)) \<and> py p = py p0"
proof -
  obtain dy where oy: "offset_pc oy = Inr dy"
    using sample_coords_Inr_offsets [OF assms(2)] by blast
  have none: "offset_pc None = Inr (Num 0)" by (simp add: offset_pc_def)
  from sample_coords_Inr [OF assms(1) oy, of N L] sample_coords_Inr [OF none oy, of N L] assms(2,3)
  have "px p = \<lparr>qvals = concat (xgrid L N d), vunit = parsec\<rparr>"
    "px p0 = \<lparr>qvals = concat (xgrid L N (Num 0)), vunit = parsec\<rparr>" "py p = py p0"
    by auto
  then show ?thesis
    by (simp add: xgrid_def sample_at_def map_concat comp_def del: upt_Suc replicate_Suc)
qed

theorem sample_coords_offset_x_witness:
  "\<exists>p p0. offset_pc (Some \<lparr>qval = Num 1, qunit = parsec\<rparr>) = Inr (Num 1) \<and>
     sample_coords 1 2 (Some \<lparr>qval = Num 1, qunit = parsec\<rparr>) None = Inr p \<and>
     sample_coords 1 2 None None = Inr p0 \<and>
     qvals (px p) = map (\<lambda>a. fadd a (Num 1)) (qvals (px p0)) \<and> py p = py p0"
proof -
  have o: "offset_pc (Some \<lparr>qval = Num 1, qunit = parsec\<rparr>) = Inr (Num 1)"
    by (simp add: offset_pc_def value_in_def)
  obtain p where p: "sample_coords 1 2 (Some \<lparr>qval = Num 1, qunit = parsec\<rparr>) None = Inr p"
    using sample_coords_Inr [OF o offset_pc_None, of 1 2] by blast
  obtain p0 where p0: "sample_coords 1 2 None None = Inr p0"
    using sample_coords_Inr [OF offset_pc_None offset_pc_None, of 1 2] by blast
  show ?thesis using sample_coords_offset_x [OF o p p0] o p p0 by blast
qed

text \<open>C35: An offset whose unit is not a length makes make_map raise IncompatibleUnitsException before the evaluator is called.\<close>

theorem make_map_offset_dimension_error:
  assumes "dim (qunit q) \<noteq> Length"
  shows "make_map sph N L (Some q) oy = Inl (IncompatibleUnits (uname (qunit q)) ''parsec'')"
proof -
  have "offset_pc (Some q) = Inl (IncompatibleUnits (uname (qunit q)) ''parsec'')"
    using assms by (simp add: offset_pc_def value_in_Inl_iff)
  then show ?thesis by (simp add: make_map_def sample_coords_Inl_x)
qed

theorem make_map_offset_dimension_error_witness:
  "dim (qunit \<lparr>qval = Num 1, qunit = kms\<rparr>) \<noteq> Length \<and>
   make_map (field_eval (\<lambda>_ _. Num 1) amu_per_cm3) 2 2 (Some \<lparr>qval = Num 1, qunit = kms\<rparr>) None =
     Inl (IncompatibleUnits ''km / s'' ''parsec'')"
  using make_map_offset_dimension_error [of "\<lparr>qval = Num 1, qunit = kms\<rparr>"]
  by (simp add: kms_def)

text \<open>C36: An evaluator answer with other than five arrays makes make_map raise the ValueError of tuple unpacking.\<close>

theorem make_map_unpack_error:
  assumes "sample_coords N L ox oy = Inr p"
    and "sph (px p) (py p) (pz p) (pvx p) (pvy p) (pvz p) = Inr res" and "length res \<noteq> 5"
  shows "make_map sph N L ox oy = Inl (UnpackError (length res))"
proof -
  have "unpack5 res = Inl (UnpackError (length res))"
    using assms(3) by (auto simp: unpack5_def split: list.splits)
  with assms(1,2) show ?thesis by (simp add: make_map_def)
qed

theorem make_map_unpack_error_witness:
  "\<exists>p. sample_coords 1 2 None None = Inr p \<and>
     (\<lambda>x y z vx vy vz. Inr [x]) (px p) (py p) (pz p) (pvx p) (pvy p) (pvz p) = Inr [px p] \<and>
     length [px p] \<noteq> 5 \<and>
     make_map (\<lambda>x y z vx vy vz. Inr [x]) 1 2 None None = Inl (UnpackError 1)"
proof -
  obtain p where p: "sample_coords 1 2 None None = Inr p"
    using sample_coords_Inr [OF offset_pc_None offset_pc_None, of 1 2] by blast
  show ?thesis
    using make_map_unpack_error [OF p, of "\<lambda>x y z vx vy vz. Inr [x]" "[px p]"] p by simp
qed

text \<open>C37: A density array whose length is not (N+1)^2 makes make_map raise the ValueError of reshape.\<close>

theorem make_map_reshape_error:
  assumes "sample_coords N L ox oy = Inr p"
    and "sph (px p) (py p) (pz p) (pvx p) (pvy p) (pvz p) = Inr [rho, m1, m2, m3, e]"
    and "length (qvals rho) \<noteq> (N + 1) * (N + 1)"
  shows "make_map sph N L ox oy = Inl (ReshapeError (length (qvals rho)) (N + 1) (N + 1))"
  using assms by (simp add: make_map_def unpack5_def reshape_def del: One_nat_def add_Suc_right)

theorem make_map_reshape_error_witness:
  "\<exists>p. sample_coords 1 2 None None = Inr p \<and>
     (\<lambda>x y z vx vy vz. Inr [\<lparr>qvals = [Num 1], vunit = amu_per_cm3\<rparr>, x, x, x, x])
        (px p) (py p) (pz p) (pvx p) (pvy p) (pvz p) =
       Inr [\<lparr>qvals = [Num 1], vunit = amu_per_cm3\<rparr>, px p, px p, px p, px p] \<and>
     length (qvals \<lparr>qvals = [Num 1], vunit = amu_per_cm3\<rparr>) \<noteq> (1 + 1) * (1 + 1) \<and>
     make_map (\<lambda>x y z vx vy vz. Inr [\<lparr>qvals = [Num 1], vunit = amu_per_cm3\<rparr>, x, x, x, x]) 1 2 None None =
       Inl (ReshapeError 1 2 2)"
proof -
  obtain p where p: "sample_coords 1 2 None None = Inr p"
    using sample_coords_Inr [OF offset_pc_None offset_pc_None, of 1 2] by blast
  show ?thesis
    using make_map_reshape_error [OF p, of "\<lambda>x y z vx vy vz. Inr [\<lparr>qvals = [Num 1], vunit = amu_per_cm3\<rparr>, x, x, x, x]"
        "\<lparr>qvals = [Num 1], vunit = amu_per_cm3\<rparr>" "px p" "px p" "px p" "px p"] p
    by simp
qed

theorem make_map_evaluator_error:
  assumes "sample_coords N L ox oy = Inr p"
    and "sph (px p) (py p) (pz p) (pvx p) (pvy p) (pvz p) = Inl e"
  shows "make_map sph N L ox oy = Inl e"
  using assms by (simp add: make_map_def)

end
