(* ===== verification/Backend.thy ===== *)
theory Backend
  imports Units
begin

text \<open>
  The interface between the scene composer and matplotlib. The composer's effect is
  the sequence of backend calls it makes (\<open>plot_call\<close>), so a run of it is modelled
  as the list of calls made before it returned or raised, together with the outcome
  (\<open>'a plot\<close>): an exception after \<open>pyplot.figure\<close> leaves the figure created. The
  backend's own meaning of the calls (\<open>apply_call\<close> on \<open>fig_state\<close>) and the geometry
  of \<open>imshow\<close> and of the axis limits are modelled from the spec (section 6) and from
  matplotlib's documented behaviour: limits \<open>(left, right)\<close> put \<open>left\<close> at the
  left edge of the axes, and an image of \<open>n\<close> columns drawn with extent
  \<open>[x0, x1, y0, y1]\<close> and origin \<open>lower\<close> gives column \<open>k\<close> the interval
  \<open>[x0 + k (x1 - x0)/n, x0 + (k+1)(x1 - x0)/n]\<close>, row 0 at the bottom.
\<close>

section \<open>Calls\<close>

datatype origin = OriginUpper | OriginLower

record extent =
  ext_xmin :: fval
  ext_xmax :: fval
  ext_ymin :: fval
  ext_ymax :: fval

datatype plot_call =
    Figure real real
  | AddSubplot nat nat nat
  | Imshow "fval list list" extent origin
  | Scatter "fval list" "fval list" "fval list" string real
  | Xlim fval fval
  | Ylim fval fval
  | Xlabel string
  | Ylabel string
  | Title string
  | Savefig string nat
  | Show

text \<open>The calls made, and the value returned or the exception raised.\<close>

type_synonym 'a plot = "plot_call list \<times> (py_error + 'a)"

definition pret :: "'a \<Rightarrow> 'a plot" where
  "pret a = ([], Inr a)"

definition pcall :: "plot_call \<Rightarrow> unit plot" where
  "pcall c = ([c], Inr ())"

definition plift :: "py_error + 'a \<Rightarrow> 'a plot" where
  "plift r = ([], r)"

definition pbind :: "'a plot \<Rightarrow> ('a \<Rightarrow> 'b plot) \<Rightarrow> 'b plot" where
  "pbind m f = (case snd m of Inl e \<Rightarrow> (fst m, Inl e) | Inr a \<Rightarrow> (fst m @ fst (f a), snd (f a)))"

section \<open>The backend's state\<close>

record fig_state =
  open_figures :: nat
  images :: "(fval list list \<times> extent \<times> origin) list"
  scatters :: "(fval list \<times> fval list \<times> fval list) list"
  xlimits :: "(fval \<times> fval) option"
  ylimits :: "(fval \<times> fval) option"
  xlabel :: string
  ylabel :: string
  title :: string
  shown :: nat
  saved :: "string list"

definition init_fig_state :: fig_state where
  "init_fig_state = \<lparr>open_figures = 0, images = [], scatters = [], xlimits = None, ylimits = None,
     xlabel = [], ylabel = [], title = [], shown = 0, saved = []\<rparr>"

fun apply_call :: "fig_state \<Rightarrow> plot_call \<Rightarrow> fig_state" where
  "apply_call s (Figure w h) = s\<lparr>open_figures := Suc (open_figures s)\<rparr>"
| "apply_call s (AddSubplot r c i) = s"
| "apply_call s (Imshow a ext org) = s\<lparr>images := images s @ [(a, ext, org)]\<rparr>"
| "apply_call s (Scatter x y sz col lw) = s\<lparr>scatters := scatters s @ [(x, y, sz)]\<rparr>"
| "apply_call s (Xlim l r) = s\<lparr>xlimits := Some (l, r)\<rparr>"
| "apply_call s (Ylim b t) = s\<lparr>ylimits := Some (b, t)\<rparr>"
| "apply_call s (Xlabel l) = s\<lparr>xlabel := l\<rparr>"
| "apply_call s (Ylabel l) = s\<lparr>ylabel := l\<rparr>"
| "apply_call s (Title t) = s\<lparr>title := t\<rparr>"
| "apply_call s (Savefig f dpi) = s\<lparr>saved := saved s @ [f]\<rparr>"
| "apply_call s Show = s\<lparr>shown := Suc (shown s)\<rparr>"

definition run_calls :: "plot_call list \<Rightarrow> fig_state" where
  "run_calls cs = foldl apply_call init_fig_state cs"

text \<open>The calls that write a file and the calls that draw markers.\<close>

fun is_save :: "plot_call \<Rightarrow> bool" where
  "is_save (Savefig f d) = True"
| "is_save _ = False"

fun is_scatter :: "plot_call \<Rightarrow> bool" where
  "is_scatter (Scatter x y s c lw) = True"
| "is_scatter _ = False"

text \<open>The calls that open a figure, draw an image and show the figures.\<close>

fun is_figure :: "plot_call \<Rightarrow> bool" where
  "is_figure (Figure w h) = True"
| "is_figure _ = False"

fun is_imshow :: "plot_call \<Rightarrow> bool" where
  "is_imshow (Imshow a ext org) = True"
| "is_imshow _ = False"

fun is_show :: "plot_call \<Rightarrow> bool" where
  "is_show Show = True"
| "is_show _ = False"

text \<open>A run shows its figure exactly when it returns normally.\<close>

definition shows_iff_returns :: "'a plot \<Rightarrow> bool" where
  "shows_iff_returns m \<longleftrightarrow> (Show \<in> set (fst m) \<longleftrightarrow> (\<exists>a. snd m = Inr a))"

section \<open>Geometry\<close>

text \<open>Where a data coordinate lands across the axes, as a fraction from the left (or bottom) edge.\<close>

definition axis_fraction :: "real \<times> real \<Rightarrow> real \<Rightarrow> real" where
  "axis_fraction lims v = (v - fst lims) / (snd lims - fst lims)"

text \<open>The data interval of pixel \<open>k\<close> of \<open>n\<close> along an image axis spanning \<open>lo\<close> to \<open>hi\<close>.\<close>

definition pixel_interval :: "real \<Rightarrow> real \<Rightarrow> nat \<Rightarrow> nat \<Rightarrow> real \<times> real" where
  "pixel_interval lo hi n k = (lo + real k * (hi - lo) / real n, lo + real (Suc k) * (hi - lo) / real n)"

section \<open>Laws of the call trace\<close>

lemma pbind_pret [simp]: "pbind (pret a) f = f a"
  by (simp add: pbind_def pret_def)

lemma pbind_pcall [simp]: "pbind (pcall c) f = (c # fst (f ()), snd (f ()))"
  by (simp add: pbind_def pcall_def)

lemma pbind_plift_Inr [simp]: "pbind (plift (Inr a)) f = f a"
  by (simp add: pbind_def plift_def)

lemma pbind_plift_Inl [simp]: "pbind (plift (Inl e)) f = ([], Inl e)"
  by (simp add: pbind_def plift_def)

lemma pbind_Inl [simp]: "pbind (cs, Inl e) f = (cs, Inl e)"
  by (simp add: pbind_def)

lemma pbind_Inr [simp]: "pbind (cs, Inr a) f = (cs @ fst (f a), snd (f a))"
  by (simp add: pbind_def)

lemma pcall_simps [simp]: "fst (pcall c) = [c]" "snd (pcall c) = Inr ()"
  by (simp_all add: pcall_def)

lemma pret_simps [simp]: "fst (pret a) = []" "snd (pret a) = Inr a"
  by (simp_all add: pret_def)

lemma list_all_pbind:
  "list_all P (fst m) \<Longrightarrow> (\<And>a. list_all P (fst (f a))) \<Longrightarrow> list_all P (fst (pbind m f))"
  by (cases m; cases "snd m") (auto simp: pbind_def)

lemma list_all_pcall: "P c \<Longrightarrow> list_all P (fst (pcall c))"
  and list_all_plift: "list_all P (fst (plift r))"
  and list_all_pret: "list_all P (fst (pret a))"
  by (simp_all add: pcall_def plift_def pret_def)

lemmas list_all_plot_intros = list_all_pbind list_all_pcall list_all_plift list_all_pret

lemma shows_iff_returns_pbind:
  "list_all (\<lambda>c. c \<noteq> Show) (fst m) \<Longrightarrow> (\<And>a. shows_iff_returns (f a)) \<Longrightarrow>
   shows_iff_returns (pbind m f)"
  by (cases m; cases "snd m") (auto simp: pbind_def shows_iff_returns_def list_all_iff)

lemma shows_iff_returns_Show: "shows_iff_returns (pcall Show)"
  by (simp add: shows_iff_returns_def pcall_def)

lemma saved_foldl: "list_all (\<lambda>c. \<not> is_save c) cs \<Longrightarrow> saved (foldl apply_call s cs) = saved s"
proof (induction cs arbitrary: s)
  case Nil
  then show ?case by simp
next
  case (Cons c cs)
  then show ?case by (cases c) auto
qed

lemma scatters_foldl:
  "list_all (\<lambda>c. \<not> is_scatter c) cs \<Longrightarrow> scatters (foldl apply_call s cs) = scatters s"
proof (induction cs arbitrary: s)
  case Nil
  then show ?case by simp
next
  case (Cons c cs)
  then show ?case by (cases c) auto
qed

lemma foldl_apply_call_counts:
  "open_figures (foldl apply_call s cs) = open_figures s + length (filter is_figure cs) \<and>
   length (images (foldl apply_call s cs)) = length (images s) + length (filter is_imshow cs) \<and>
   length (scatters (foldl apply_call s cs)) = length (scatters s) + length (filter is_scatter cs) \<and>
   shown (foldl apply_call s cs) = shown s + length (filter is_show cs)"
proof (induction cs arbitrary: s)
  case Nil
  then show ?case by simp
next
  case (Cons c cs)
  then show ?case by (cases c) auto
qed

lemma run_calls_append: "run_calls (cs @ ds) = foldl apply_call (run_calls cs) ds"
  by (simp add: run_calls_def)

lemma axis_fraction_inverted:
  "lo \<noteq> hi \<Longrightarrow> axis_fraction (hi, lo) v = (hi - v) / (hi - lo)"
  by (simp add: axis_fraction_def field_simps)

end
