(* ===== verification/Scene.thy ===== *)
theory Scene
  imports Grid Backend "HOL-Library.Sublist"
begin

text \<open>
  The scene composer, \<open>plot_hydro_and_stars\<close> of \<open>src/plotting_class.py\<close> (lines
  37--94), as the sequence of backend calls it makes: figure and axes, the density grid
  from the sampler at the fixed resolution \<open>N = 200\<close>, transposed, the image extent
  with the offsets, the log-scaled image, the optional star overlay, inverted x limits,
  labels, the title and \<open>show\<close>. The star collection is a record of three vector
  quantities; \<open>repr\<close> is Python's conversion of a float to text, used by the default
  title; \<open>filename\<close> is accepted and never used, as in the code. \<open>program_calls\<close>
  lists the calls in program order; \<open>plot_trace_shape\<close> shows that every run, whatever
  it raises, makes a prefix of them, which \<open>Session\<close> builds on.
\<close>

section \<open>Definitions\<close>

text \<open>The star particle set: masses and positions, index-aligned.\<close>

record stars =
  star_mass :: qvec
  star_x :: qvec
  star_y :: qvec

text \<open>\<open>stars.is_empty()\<close>: no particle.\<close>

definition is_empty :: "stars \<Rightarrow> bool" where
  "is_empty s \<longleftrightarrow> qvals (star_mass s) = []"

text \<open>Lines 53--62: the extent of the image, shifted by the offsets in parsec.\<close>

definition plot_extent :: "real \<Rightarrow> quantity option \<Rightarrow> quantity option \<Rightarrow> py_error + extent" where
  "plot_extent L offset_x offset_y =
     (let xmin = Num (- L / 2); xmax = Num (L / 2); ymin = Num (- L / 2); ymax = Num (L / 2)
      in ebind (case offset_x of None \<Rightarrow> Inr (xmin, xmax)
                | Some q \<Rightarrow> ebind (value_in q parsec) (\<lambda>a. ebind (value_in q parsec) (\<lambda>b.
                             Inr (fadd xmin a, fadd xmax b)))) (\<lambda>(xmin, xmax).
         ebind (case offset_y of None \<Rightarrow> Inr (ymin, ymax)
                | Some q \<Rightarrow> ebind (value_in q parsec) (\<lambda>a. ebind (value_in q parsec) (\<lambda>b.
                             Inr (fadd ymin a, fadd ymax b)))) (\<lambda>(ymin, ymax).
         Inr \<lparr>ext_xmin = xmin, ext_xmax = xmax, ext_ymin = ymin, ext_ymax = ymax\<rparr>)))"

text \<open>Line 64: \<open>numpy.log10(1.e-5 + rho.value_in(units.amu/units.cm**3))\<close>.\<close>

definition log_image :: "qgrid \<Rightarrow> py_error + fval list list" where
  "log_image rho =
     ebind (qgrid_value_in rho amu_per_cm3) (\<lambda>g. Inr (map (map (\<lambda>d. flog10 (fadd (Num (1 / 100000)) d))) g))"

text \<open>Line 78: \<open>m = 3.0*stars.mass/stars.mass.mean()\<close>.\<close>

definition star_sizes :: "qvec \<Rightarrow> fval list" where
  "star_sizes m = map (\<lambda>a. fdiv (fmul (Num 3) a) (fmean (qvals m))) (qvals m)"

text \<open>Lines 78--82: the arguments of the scatter call, \<open>(-x, y, m)\<close> with \<open>x\<close> already negated.\<close>

definition star_overlay :: "stars \<Rightarrow> py_error + fval list \<times> fval list \<times> fval list" where
  "star_overlay s =
     (let m = star_sizes (star_mass s)
      in ebind (qvec_value_in (star_x s) parsec) (\<lambda>xs. let x = map fneg xs in
         ebind (qvec_value_in (star_y s) parsec) (\<lambda>y.
         Inr (map fneg x, y, m))))"

text \<open>Lines 76--82: the scatter overlay, drawn only when there are stars.\<close>

definition overlay_stars :: "stars \<Rightarrow> unit plot" where
  "overlay_stars st =
     (if \<not> is_empty st
      then pbind (plift (star_overlay st)) (\<lambda>(x, y, m). pcall (Scatter x y m ''white'' 0))
      else pret ())"

text \<open>Lines 87--90: the explicit title when non-empty, otherwise the time in Myr.\<close>

definition title_text :: "(fval \<Rightarrow> string) \<Rightarrow> string \<Rightarrow> quantity \<Rightarrow> py_error + string" where
  "title_text repr ttl time =
     (if ttl \<noteq> [] then Inr ttl
      else ebind (as_string_in repr time myr) (\<lambda>s. Inr (''Molecular cloud at time='' @ s)))"

text \<open>The resolution the composer samples at, independent of its caller.\<close>

definition plot_resolution :: nat where
  "plot_resolution = 200"

text \<open>The extent a successful run draws with, for offsets \<open>dx\<close>, \<open>dy\<close> in parsec.\<close>

definition grid_extent :: "real \<Rightarrow> fval \<Rightarrow> fval \<Rightarrow> extent" where
  "grid_extent L dx dy = \<lparr>ext_xmin = fadd (Num (- L / 2)) dx, ext_xmax = fadd (Num (L / 2)) dx,
                          ext_ymin = fadd (Num (- L / 2)) dy, ext_ymax = fadd (Num (L / 2)) dy\<rparr>"

text \<open>The scatter arguments for stars with positions in length units: positions in parsec, sizes.\<close>

definition star_points :: "stars \<Rightarrow> fval list \<times> fval list \<times> fval list" where
  "star_points st = (map (\<lambda>a. fmul a (Num (factor (vunit (star_x st)) / factor parsec))) (qvals (star_x st)),
                     map (\<lambda>a. fmul a (Num (factor (vunit (star_y st)) / factor parsec))) (qvals (star_y st)),
                     star_sizes (star_mass st))"

definition plot_hydro_and_stars ::
  "(fval \<Rightarrow> string) \<Rightarrow> quantity \<Rightarrow> hydro_eval \<Rightarrow> stars \<Rightarrow> real \<Rightarrow> string option \<Rightarrow>
   quantity option \<Rightarrow> quantity option \<Rightarrow> string \<Rightarrow> unit plot" where
  "plot_hydro_and_stars repr time sph stars L filename offset_x offset_y ttl =
     pbind (pcall (Figure 6 6)) (\<lambda>_.
     pbind (pcall (AddSubplot 1 1 1)) (\<lambda>_.
     pbind (plift (make_map sph plot_resolution L offset_x offset_y)) (\<lambda>g.
     let rho = g\<lparr>gvals := transpose (gvals g)\<rparr> in
     pbind (plift (plot_extent L offset_x offset_y)) (\<lambda>ext.
     pbind (plift (log_image rho)) (\<lambda>img.
     pbind (pcall (Imshow img ext OriginLower)) (\<lambda>_.
     pbind (overlay_stars stars) (\<lambda>_.
     pbind (pcall (Xlim (ext_xmax ext) (ext_xmin ext))) (\<lambda>_.
     pbind (pcall (Ylim (ext_ymin ext) (ext_ymax ext))) (\<lambda>_.
     pbind (pcall (Xlabel ''x [pc]'')) (\<lambda>_.
     pbind (pcall (Ylabel ''y [pc]'')) (\<lambda>_.
     pbind (plift (title_text repr ttl time)) (\<lambda>t.
     pbind (pcall (Title t)) (\<lambda>_.
     pcall Show)))))))))))))"

text \<open>The calls of lines 48--94 in program order, for an image, an extent, the overlay's calls and a title.\<close>

definition program_tail :: "extent \<Rightarrow> string \<Rightarrow> plot_call list" where
  "program_tail ext t = [Xlim (ext_xmax ext) (ext_xmin ext), Ylim (ext_ymin ext) (ext_ymax ext),
     Xlabel ''x [pc]'', Ylabel ''y [pc]'', Title t, Show]"

definition program_calls :: "fval list list \<Rightarrow> extent \<Rightarrow> plot_call list \<Rightarrow> string \<Rightarrow> plot_call list" where
  "program_calls img ext ocs t = [Figure 6 6, AddSubplot 1 1 1, Imshow img ext OriginLower] @ ocs @ program_tail ext t"

text \<open>Scenario inputs: a uniform cloud of density 1 amu/cm3, one star of one solar mass at the origin, no stars.\<close>

definition uniform_cloud :: hydro_eval where
  "uniform_cloud = field_eval (\<lambda>_ _. Num 1) amu_per_cm3"

definition one_star :: stars where
  "one_star = \<lparr>star_mass = \<lparr>qvals = [Num 1], vunit = msun\<rparr>,
               star_x = \<lparr>qvals = [Num 0], vunit = parsec\<rparr>, star_y = \<lparr>qvals = [Num 0], vunit = parsec\<rparr>\<rparr>"

definition no_stars :: stars where
  "no_stars = \<lparr>star_mass = \<lparr>qvals = [], vunit = msun\<rparr>,
               star_x = \<lparr>qvals = [], vunit = parsec\<rparr>, star_y = \<lparr>qvals = [], vunit = parsec\<rparr>\<rparr>"

section \<open>Building blocks\<close>

lemma uniform_cloud_field: "samples_field uniform_cloud (\<lambda>_ _. Num 1) amu_per_cm3"
  by (simp add: uniform_cloud_def samples_field_field_eval)

lemma offset_pc_Some: "offset_pc (Some q) = value_in q parsec"
  by (simp add: offset_pc_def)

lemma plot_extent_Inr:
  "offset_pc ox = Inr dx \<Longrightarrow> offset_pc oy = Inr dy \<Longrightarrow> plot_extent L ox oy = Inr (grid_extent L dx dy)"
  by (cases ox; cases oy) (auto simp: plot_extent_def offset_pc_def grid_extent_def)

lemma plot_extent_Inl_x:
  "offset_pc ox = Inl e \<Longrightarrow> plot_extent L ox oy = Inl e"
  by (cases ox) (simp_all add: plot_extent_def offset_pc_def)

lemma log_image_Inr:
  "dim (gunit rho) = MassDensity \<Longrightarrow>
   log_image rho = Inr (map (map (\<lambda>d. flog10 (fadd (Num (1 / 100000)) (fmul d (Num (factor (gunit rho) / factor amu_per_cm3)))))) (gvals rho))"
  by (simp add: log_image_def qgrid_value_in_def)

lemma star_overlay_Inr:
  assumes "dim (vunit (star_x st)) = Length" "dim (vunit (star_y st)) = Length"
  shows "star_overlay st = Inr (map (\<lambda>a. fmul a (Num (factor (vunit (star_x st)) / factor parsec))) (qvals (star_x st)),
                               map (\<lambda>a. fmul a (Num (factor (vunit (star_y st)) / factor parsec))) (qvals (star_y st)),
                               star_sizes (star_mass st))"
  using assms by (simp add: star_overlay_def qvec_value_in_def comp_def)

lemma overlay_stars_empty: "is_empty st \<Longrightarrow> overlay_stars st = ([], Inr ())"
  by (simp add: overlay_stars_def pret_def)

lemma overlay_stars_Inr:
  "\<not> is_empty st \<Longrightarrow> star_overlay st = Inr (x, y, m) \<Longrightarrow> overlay_stars st = ([Scatter x y m ''white'' 0], Inr ())"
  by (simp add: overlay_stars_def pcall_def)

lemma overlay_stars_Inl:
  "\<not> is_empty st \<Longrightarrow> star_overlay st = Inl e \<Longrightarrow> overlay_stars st = ([], Inl e)"
  by (simp add: overlay_stars_def)

lemma title_text_explicit: "ttl \<noteq> [] \<Longrightarrow> title_text repr ttl time = Inr ttl"
  by (simp add: title_text_def)

lemma title_text_default:
  "dim (qunit time) = Time \<Longrightarrow>
   title_text repr [] time =
     Inr (''Molecular cloud at time='' @ repr (fmul (qval time) (Num (factor (qunit time) / factor myr))) @ '' Myr'')"
  by (simp add: title_text_def as_string_in_def value_in_def)

lemma plot_Inr:
  assumes "make_map sph plot_resolution L ox oy = Inr g"
    and "plot_extent L ox oy = Inr ext"
    and "log_image (g\<lparr>gvals := transpose (gvals g)\<rparr>) = Inr img"
    and "overlay_stars st = (ocs, Inr ())"
    and "title_text repr ttl time = Inr t"
  shows "plot_hydro_and_stars repr time sph st L fn ox oy ttl =
    ([Figure 6 6, AddSubplot 1 1 1, Imshow img ext OriginLower] @ ocs @
     [Xlim (ext_xmax ext) (ext_xmin ext), Ylim (ext_ymin ext) (ext_ymax ext),
      Xlabel ''x [pc]'', Ylabel ''y [pc]'', Title t, Show], Inr ())"
  using assms by (simp add: plot_hydro_and_stars_def)

lemma make_map_plot_field:
  "samples_field sph f u \<Longrightarrow> offset_pc ox = Inr dx \<Longrightarrow> offset_pc oy = Inr dy \<Longrightarrow>
   make_map sph plot_resolution L ox oy = Inr \<lparr>gvals = field_grid f L plot_resolution dx dy, gunit = u\<rparr>"
  by (rule make_map_field)

lemma overlay_stars_calls:
  assumes "dim (vunit (star_x st)) = Length" "dim (vunit (star_y st)) = Length"
  shows "overlay_stars st =
           (if is_empty st then [] else [Scatter (fst (star_points st)) (fst (snd (star_points st)))
                                           (snd (snd (star_points st))) ''white'' 0], Inr ())"
  using assms by (cases "is_empty st")
    (simp_all add: overlay_stars_empty overlay_stars_Inr star_overlay_Inr star_points_def)

lemma star_overlay_Inl_x:
  "dim (vunit (star_x st)) \<noteq> Length \<Longrightarrow>
   star_overlay st = Inl (IncompatibleUnits (uname (vunit (star_x st))) ''parsec'')"
  by (simp add: star_overlay_def qvec_value_in_def)

lemma overlay_stars_no_show: "list_all (\<lambda>c. c \<noteq> Show) (fst (overlay_stars st))"
  unfolding overlay_stars_def
  by (auto intro!: list_all_plot_intros split: prod.splits)

lemma title_text_not_time:
  "dim (qunit time) \<noteq> Time \<Longrightarrow>
   title_text repr [] time = Inl (IncompatibleUnits (uname (qunit time)) ''Myr'')"
  by (simp add: title_text_def as_string_in_def value_in_def)

lemma plot_shows_iff_returns: "shows_iff_returns (plot_hydro_and_stars repr time sph st L fn ox oy ttl)"
  unfolding plot_hydro_and_stars_def Let_def
  by (intro shows_iff_returns_pbind shows_iff_returns_Show list_all_plot_intros overlay_stars_no_show)
    simp_all

lemma overlay_stars_cases:
  "overlay_stars st = ([], Inr ()) \<or> (\<exists>e. overlay_stars st = ([], Inl e)) \<or>
   (\<exists>x y m. overlay_stars st = ([Scatter x y m ''white'' 0], Inr ()))"
  by (cases "is_empty st"; cases "star_overlay st")
    (auto simp: overlay_stars_def pret_def pcall_def split: prod.splits)

lemma plot_trace_shape:
  "fst (plot_hydro_and_stars repr time sph st L fn ox oy ttl) = [Figure 6 6, AddSubplot 1 1 1] \<or>
   (\<exists>img ext ocs t j. fst (plot_hydro_and_stars repr time sph st L fn ox oy ttl) =
      [Figure 6 6, AddSubplot 1 1 1, Imshow img ext OriginLower] @ take j (ocs @ program_tail ext t) \<and>
      (ocs = [] \<or> (\<exists>x y m. ocs = [Scatter x y m ''white'' 0])))"
  (is "?P \<or> ?Q")
proof (cases "make_map sph plot_resolution L ox oy")
  case (Inl e)
  then show ?thesis by (simp add: plot_hydro_and_stars_def)
next
  case (Inr g)
  show ?thesis
  proof (cases "plot_extent L ox oy")
    case (Inl e)
    with \<open>make_map sph plot_resolution L ox oy = Inr g\<close> show ?thesis
      by (simp add: plot_hydro_and_stars_def)
  next
    case (Inr ext)
    show ?thesis
    proof (cases "log_image (g\<lparr>gvals := transpose (gvals g)\<rparr>)")
      case (Inl e)
      with \<open>make_map sph plot_resolution L ox oy = Inr g\<close> \<open>plot_extent L ox oy = Inr ext\<close>
      show ?thesis by (simp add: plot_hydro_and_stars_def)
    next
      case (Inr img)
      note pre = \<open>make_map sph plot_resolution L ox oy = Inr g\<close> \<open>plot_extent L ox oy = Inr ext\<close> Inr
      consider (A) e where "overlay_stars st = ([], Inl e)"
        | (B) ocs where "overlay_stars st = (ocs, Inr ())"
          "ocs = [] \<or> (\<exists>x y m. ocs = [Scatter x y m ''white'' 0])"
        using overlay_stars_cases [of st] by blast
      then show ?thesis
      proof cases
        case A
        with pre have "fst (plot_hydro_and_stars repr time sph st L fn ox oy ttl) =
            [Figure 6 6, AddSubplot 1 1 1, Imshow img ext OriginLower] @ take 0 ([] @ program_tail ext [])"
          by (simp add: plot_hydro_and_stars_def)
        then show ?thesis by blast
      next
        case B
        show ?thesis
        proof (cases "title_text repr ttl time")
          case (Inl e)
          with pre B(1) have "fst (plot_hydro_and_stars repr time sph st L fn ox oy ttl) =
              [Figure 6 6, AddSubplot 1 1 1, Imshow img ext OriginLower] @
                take (length ocs + 4) (ocs @ program_tail ext [])"
            by (simp add: plot_hydro_and_stars_def program_tail_def)
          with B(2) show ?thesis by blast
        next
          case (Inr t)
          with pre B(1) have "fst (plot_hydro_and_stars repr time sph st L fn ox oy ttl) =
              [Figure 6 6, AddSubplot 1 1 1, Imshow img ext OriginLower] @
                take (length ocs + 6) (ocs @ program_tail ext t)"
            by (simp add: plot_hydro_and_stars_def program_tail_def)
          with B(2) show ?thesis by blast
        qed
      qed
    qed
  qed
qed

lemma make_map_speed_offset:
  "make_map uniform_cloud plot_resolution 10 (Some \<lparr>qval = Num 1, qunit = kms\<rparr>) None =
     Inl (IncompatibleUnits ''km / s'' ''parsec'')"
  by (simp add: make_map_def sample_coords_def add_offset_def qvec_iadd_def value_in_def
      conversion_def kms_def parsec_def Let_def indices_def del: upt_Suc)

lemma witness_hyps:
  "dim amu_per_cm3 = MassDensity" "offset_pc None = Inr (Num 0)"
  "dim (vunit (star_x one_star)) = Length" "dim (vunit (star_y one_star)) = Length"
  "title_text (\<lambda>_. ''1.0'') ''GMC'' \<lparr>qval = Num 1, qunit = myr\<rparr> = Inr ''GMC''"
  by (simp_all add: offset_pc_None one_star_def title_text_explicit)

section \<open>Runs of the composer\<close>

lemma plot_run_state:
  assumes field: "samples_field sph f u" and du: "dim u = MassDensity"
    and ox: "offset_pc ox = Inr dx" and oy: "offset_pc oy = Inr dy"
    and sx: "dim (vunit (star_x st)) = Length" and sy: "dim (vunit (star_y st)) = Length"
    and tt: "title_text repr ttl time = Inr t"
  shows "snd (plot_hydro_and_stars repr time sph st L fn ox oy ttl) = Inr () \<and>
    run_calls (fst (plot_hydro_and_stars repr time sph st L fn ox oy ttl)) =
      \<lparr>open_figures = 1,
       images = [(map (map (\<lambda>d. flog10 (fadd (Num (1 / 100000)) (fmul d (Num (factor u / factor amu_per_cm3))))))
                     (transpose (field_grid f L plot_resolution dx dy)), grid_extent L dx dy, OriginLower)],
       scatters = (if is_empty st then [] else [star_points st]),
       xlimits = Some (fadd (Num (L / 2)) dx, fadd (Num (- L / 2)) dx),
       ylimits = Some (fadd (Num (- L / 2)) dy, fadd (Num (L / 2)) dy),
       xlabel = ''x [pc]'', ylabel = ''y [pc]'', title = t, shown = 1, saved = []\<rparr>"
proof -
  have mm: "make_map sph plot_resolution L ox oy = Inr \<lparr>gvals = field_grid f L plot_resolution dx dy, gunit = u\<rparr>"
    using field ox oy by (rule make_map_field)
  have li: "log_image (\<lparr>gvals = field_grid f L plot_resolution dx dy, gunit = u\<rparr>
              \<lparr>gvals := transpose (gvals \<lparr>gvals = field_grid f L plot_resolution dx dy, gunit = u\<rparr>)\<rparr>) =
     Inr (map (map (\<lambda>d. flog10 (fadd (Num (1 / 100000)) (fmul d (Num (factor u / factor amu_per_cm3))))))
              (transpose (field_grid f L plot_resolution dx dy)))"
    using du by (simp add: log_image_Inr)
  show ?thesis
    using plot_Inr [OF mm plot_extent_Inr [OF ox oy] li overlay_stars_calls [OF sx sy] tt]
    by (cases "is_empty st") (simp_all add: run_calls_def init_fig_state_def grid_extent_def)
qed

lemma star_points_parsec:
  "vunit (star_x st) = parsec \<Longrightarrow> vunit (star_y st) = parsec \<Longrightarrow>
   star_points st = (qvals (star_x st), qvals (star_y st), star_sizes (star_mass st))"
  by (simp add: star_points_def parsec_def)

lemma plot_image:
  assumes "samples_field sph f u" "dim u = MassDensity"
    and "offset_pc ox = Inr dx" "offset_pc oy = Inr dy"
    and "dim (vunit (star_x st)) = Length" "dim (vunit (star_y st)) = Length"
    and "title_text repr ttl time = Inr t"
  shows "images (run_calls (fst (plot_hydro_and_stars repr time sph st L fn ox oy ttl))) =
    [(map (map (\<lambda>d. flog10 (fadd (Num (1 / 100000)) (fmul d (Num (factor u / factor amu_per_cm3))))))
        (transpose (field_grid f L plot_resolution dx dy)), grid_extent L dx dy, OriginLower)]"
  using plot_run_state [OF assms] by simp


text \<open>C7: With an evaluator sampling a density field, offsets and star positions in length units and a title that can be formed, plot_hydro_and_stars returns normally: it opens one figure, sets the title, and its last call is the single show.\<close>

theorem plot_completes:
  assumes "samples_field sph f u" "dim u = MassDensity"
    and "offset_pc ox = Inr dx" "offset_pc oy = Inr dy"
    and "dim (vunit (star_x st)) = Length" "dim (vunit (star_y st)) = Length"
    and "title_text repr ttl time = Inr t"
  shows "snd (plot_hydro_and_stars repr time sph st L fn ox oy ttl) = Inr () \<and>
         open_figures (run_calls (fst (plot_hydro_and_stars repr time sph st L fn ox oy ttl))) = 1 \<and>
         shown (run_calls (fst (plot_hydro_and_stars repr time sph st L fn ox oy ttl))) = 1 \<and>
         title (run_calls (fst (plot_hydro_and_stars repr time sph st L fn ox oy ttl))) = t \<and>
         last (fst (plot_hydro_and_stars repr time sph st L fn ox oy ttl)) = Show"
proof -
  from plot_run_state [OF assms] show ?thesis
    using plot_Inr [OF make_map_field [OF assms(1,3,4)] plot_extent_Inr [OF assms(3,4)] _
        overlay_stars_calls [OF assms(5,6)] assms(7)] assms(2)
    by (simp add: log_image_Inr)
qed

theorem plot_completes_witness:
  "samples_field uniform_cloud (\<lambda>_ _. Num 1) amu_per_cm3 \<and> dim amu_per_cm3 = MassDensity \<and>
   offset_pc None = Inr (Num 0) \<and>
   dim (vunit (star_x one_star)) = Length \<and> dim (vunit (star_y one_star)) = Length \<and>
   title_text (\<lambda>_. ''1.0'') ''GMC'' \<lparr>qval = Num 1, qunit = myr\<rparr> = Inr ''GMC'' \<and>
   snd (plot_hydro_and_stars (\<lambda>_. ''1.0'') \<lparr>qval = Num 1, qunit = myr\<rparr> uniform_cloud one_star 10 None None None ''GMC'') = Inr () \<and>
   last (fst (plot_hydro_and_stars (\<lambda>_. ''1.0'') \<lparr>qval = Num 1, qunit = myr\<rparr> uniform_cloud one_star 10 None None None ''GMC'')) = Show"
proof -
  have h: "dim amu_per_cm3 = MassDensity" "offset_pc None = Inr (Num 0)"
    "dim (vunit (star_x one_star)) = Length" "dim (vunit (star_y one_star)) = Length"
    "title_text (\<lambda>_. ''1.0'') ''GMC'' \<lparr>qval = Num 1, qunit = myr\<rparr> = Inr ''GMC''"
    by (simp_all add: offset_pc_None one_star_def title_text_explicit)
  show ?thesis
    using plot_completes [OF uniform_cloud_field h(1) h(2) h(2) h(3) h(4) h(5), of 10 None] uniform_cloud_field h
    by blast
qed

lemma plot_no_save: "list_all (\<lambda>c. \<not> is_save c) (fst (plot_hydro_and_stars repr time sph st L fn ox oy ttl))"
  unfolding plot_hydro_and_stars_def overlay_stars_def Let_def
  by (auto intro!: list_all_plot_intros split: prod.splits)

lemma plot_empty_no_scatter:
  "is_empty st \<Longrightarrow> list_all (\<lambda>c. \<not> is_scatter c) (fst (plot_hydro_and_stars repr time sph st L fn ox oy ttl))"
  unfolding plot_hydro_and_stars_def overlay_stars_def Let_def
  by (auto intro!: list_all_plot_intros split: prod.splits)


text \<open>C29: The filename parameter is dead: the calls made do not depend on it and no run of the composer saves a file.\<close>

theorem plot_filename_unused:
  "plot_hydro_and_stars repr time sph st L fn ox oy ttl = plot_hydro_and_stars repr time sph st L None ox oy ttl \<and>
   saved (run_calls (fst (plot_hydro_and_stars repr time sph st L fn ox oy ttl))) = []"
proof
  show "plot_hydro_and_stars repr time sph st L fn ox oy ttl = plot_hydro_and_stars repr time sph st L None ox oy ttl"
    by (simp only: plot_hydro_and_stars_def)
  show "saved (run_calls (fst (plot_hydro_and_stars repr time sph st L fn ox oy ttl))) = []"
    unfolding run_calls_def
    by (simp only: saved_foldl [OF plot_no_save]) (simp add: init_fig_state_def)
qed


text \<open>C21: With an empty star collection no scatter overlay is drawn, whatever else happens.\<close>

theorem plot_empty_stars_no_overlay:
  "is_empty st \<Longrightarrow> scatters (run_calls (fst (plot_hydro_and_stars repr time sph st L fn ox oy ttl))) = []"
  unfolding run_calls_def
  by (simp only: scatters_foldl [OF plot_empty_no_scatter]) (simp add: init_fig_state_def)

theorem plot_empty_stars_no_overlay_witness:
  "is_empty no_stars \<and>
   scatters (run_calls (fst (plot_hydro_and_stars (\<lambda>_. ''1.0'') \<lparr>qval = Num 1, qunit = myr\<rparr> uniform_cloud no_stars 10 None None None []))) = []"
proof -
  have e: "is_empty no_stars" by (simp add: is_empty_def no_stars_def)
  show ?thesis using e plot_empty_stars_no_overlay [OF e] by blast
qed


text \<open>C18: An exception in the sampler propagates out of the composer after the figure and axes were created: the figure stays open and is never shown.\<close>

theorem plot_make_map_error:
  assumes "make_map sph plot_resolution L ox oy = Inl e"
  shows "plot_hydro_and_stars repr time sph st L fn ox oy ttl = ([Figure 6 6, AddSubplot 1 1 1], Inl e) \<and>
         open_figures (run_calls [Figure 6 6, AddSubplot 1 1 1]) = 1 \<and>
         shown (run_calls [Figure 6 6, AddSubplot 1 1 1]) = 0"
  using assms by (simp add: plot_hydro_and_stars_def run_calls_def init_fig_state_def)

theorem plot_make_map_error_witness:
  "make_map uniform_cloud plot_resolution 10 (Some \<lparr>qval = Num 1, qunit = kms\<rparr>) None =
     Inl (IncompatibleUnits ''km / s'' ''parsec'') \<and>
   plot_hydro_and_stars (\<lambda>_. ''1.0'') \<lparr>qval = Num 1, qunit = myr\<rparr> uniform_cloud one_star 10 None
     (Some \<lparr>qval = Num 1, qunit = kms\<rparr>) None [] =
     ([Figure 6 6, AddSubplot 1 1 1], Inl (IncompatibleUnits ''km / s'' ''parsec''))"
proof -
  note e = make_map_speed_offset
  show ?thesis using e plot_make_map_error [OF e] by blast
qed

text \<open>C8: The composer shows its figure exactly when it returns normally: every exception (in the sampler, the extent, the log scale, the star overlay or the title) leaves the figure unshown, and a normal return always shows it.\<close>

theorem plot_show_iff_completes:
  "Show \<in> set (fst (plot_hydro_and_stars repr time sph st L fn ox oy ttl)) \<longleftrightarrow>
   snd (plot_hydro_and_stars repr time sph st L fn ox oy ttl) = Inr ()"
  using plot_shows_iff_returns [of repr time sph st L fn ox oy ttl] by (simp add: shows_iff_returns_def)

text \<open>C10: Whatever exception occurs, the calls a run makes are a prefix of the calls of lines 48--94 in program order (figure, subplot, imshow, the optional scatter, limits, labels, title, show), and every run starts with the figure and its subplot.\<close>

theorem plot_trace_prefix:
  "prefix [Figure 6 6, AddSubplot 1 1 1] (fst (plot_hydro_and_stars repr time sph st L fn ox oy ttl)) \<and>
   (\<exists>img ext ocs t. prefix (fst (plot_hydro_and_stars repr time sph st L fn ox oy ttl)) (program_calls img ext ocs t) \<and>
      (ocs = [] \<or> (\<exists>x y m. ocs = [Scatter x y m ''white'' 0])))"
  using plot_trace_shape [of repr time sph st L fn ox oy ttl]
proof
  assume "fst (plot_hydro_and_stars repr time sph st L fn ox oy ttl) = [Figure 6 6, AddSubplot 1 1 1]"
  then show ?thesis by (auto simp: program_calls_def)
next
  assume "\<exists>img ext ocs t j. fst (plot_hydro_and_stars repr time sph st L fn ox oy ttl) =
      [Figure 6 6, AddSubplot 1 1 1, Imshow img ext OriginLower] @ take j (ocs @ program_tail ext t) \<and>
      (ocs = [] \<or> (\<exists>x y m. ocs = [Scatter x y m ''white'' 0]))"
  then obtain img ext ocs t j where eq: "fst (plot_hydro_and_stars repr time sph st L fn ox oy ttl) =
      [Figure 6 6, AddSubplot 1 1 1, Imshow img ext OriginLower] @ take j (ocs @ program_tail ext t)"
    and ocs: "ocs = [] \<or> (\<exists>x y m. ocs = [Scatter x y m ''white'' 0])" by blast
  have "prefix (take j (ocs @ program_tail ext t)) (ocs @ program_tail ext t)"
    by (rule take_is_prefix)
  then have "prefix (fst (plot_hydro_and_stars repr time sph st L fn ox oy ttl)) (program_calls img ext ocs t)"
    by (simp add: eq program_calls_def)
  moreover have "prefix [Figure 6 6, AddSubplot 1 1 1] (fst (plot_hydro_and_stars repr time sph st L fn ox oy ttl))"
    by (simp add: eq)
  ultimately show ?thesis using ocs by blast
qed

text \<open>C19: When the default title cannot be formed (the time is not a time quantity), the composer raises after drawing the image, the star overlay (if any), the limits and the labels: the figure is left open with no title and is not shown. This holds for every star collection whose overlay succeeds, with or without stars.\<close>

theorem plot_title_error:
  assumes "make_map sph plot_resolution L ox oy = Inr g" "plot_extent L ox oy = Inr ext"
    and "log_image (g\<lparr>gvals := transpose (gvals g)\<rparr>) = Inr img"
    and "overlay_stars st = (ocs, Inr ())"
    and "title_text repr ttl time = Inl e"
  shows "plot_hydro_and_stars repr time sph st L fn ox oy ttl =
           ([Figure 6 6, AddSubplot 1 1 1, Imshow img ext OriginLower] @ ocs @
            [Xlim (ext_xmax ext) (ext_xmin ext), Ylim (ext_ymin ext) (ext_ymax ext),
             Xlabel ''x [pc]'', Ylabel ''y [pc]''], Inl e)"
  using assms by (simp add: plot_hydro_and_stars_def)

theorem plot_title_error_witness:
  "\<exists>img ext x y m. plot_hydro_and_stars (\<lambda>_. ''1.0'') \<lparr>qval = Num 1, qunit = kms\<rparr> uniform_cloud one_star 10
     None None None [] =
     ([Figure 6 6, AddSubplot 1 1 1, Imshow img ext OriginLower, Scatter x y m ''white'' 0,
       Xlim (ext_xmax ext) (ext_xmin ext), Ylim (ext_ymin ext) (ext_ymax ext),
       Xlabel ''x [pc]'', Ylabel ''y [pc]''], Inl (IncompatibleUnits ''km / s'' ''Myr''))"
proof -
  have h: "dim amu_per_cm3 = MassDensity" "offset_pc None = Inr (Num 0)"
    by (simp_all add: offset_pc_None)
  have mm: "make_map uniform_cloud plot_resolution 10 None None =
      Inr \<lparr>gvals = field_grid (\<lambda>_ _. Num 1) 10 plot_resolution (Num 0) (Num 0), gunit = amu_per_cm3\<rparr>"
    using uniform_cloud_field h(2) h(2) by (rule make_map_field)
  obtain img where li: "log_image (\<lparr>gvals = field_grid (\<lambda>_ _. Num 1) 10 plot_resolution (Num 0) (Num 0),
      gunit = amu_per_cm3\<rparr>\<lparr>gvals := transpose (gvals \<lparr>gvals = field_grid (\<lambda>_ _. Num 1) 10 plot_resolution
      (Num 0) (Num 0), gunit = amu_per_cm3\<rparr>)\<rparr>) = Inr img"
    using h(1) by (simp add: log_image_Inr)
  have ne: "\<not> is_empty one_star"
    by (simp add: is_empty_def one_star_def)
  have ov: "overlay_stars one_star = ([Scatter (fst (star_points one_star)) (fst (snd (star_points one_star)))
      (snd (snd (star_points one_star))) ''white'' 0], Inr ())"
    using overlay_stars_calls [OF witness_hyps(3,4)] ne by simp
  have tt: "title_text (\<lambda>_. ''1.0'') [] \<lparr>qval = Num 1, qunit = kms\<rparr> = Inl (IncompatibleUnits ''km / s'' ''Myr'')"
    using title_text_not_time [of "\<lparr>qval = Num 1, qunit = kms\<rparr>"] by (simp add: kms_def)
  show ?thesis
    using plot_title_error [OF mm plot_extent_Inr [OF h(2) h(2)] li ov tt] by simp
qed

text \<open>C20: When a star's x is not a length the composer raises IncompatibleUnits from value_in(parsec) after the image was drawn: the trace ends at imshow and no limits, labels, title or show follow.\<close>

theorem plot_star_unit_error:
  assumes "make_map sph plot_resolution L ox oy = Inr g" "plot_extent L ox oy = Inr ext"
    and "log_image (g\<lparr>gvals := transpose (gvals g)\<rparr>) = Inr img"
    and "\<not> is_empty st" "dim (vunit (star_x st)) \<noteq> Length"
  shows "plot_hydro_and_stars repr time sph st L fn ox oy ttl =
           ([Figure 6 6, AddSubplot 1 1 1, Imshow img ext OriginLower],
            Inl (IncompatibleUnits (uname (vunit (star_x st))) ''parsec''))"
  using assms by (simp add: plot_hydro_and_stars_def overlay_stars_Inl star_overlay_Inl_x)

theorem plot_star_unit_error_witness:
  "\<exists>img ext. plot_hydro_and_stars (\<lambda>_. ''1.0'') \<lparr>qval = Num 1, qunit = myr\<rparr> uniform_cloud
     (one_star\<lparr>star_x := \<lparr>qvals = [Num 0], vunit = kms\<rparr>\<rparr>) 10 None None None ''GMC'' =
     ([Figure 6 6, AddSubplot 1 1 1, Imshow img ext OriginLower], Inl (IncompatibleUnits ''km / s'' ''parsec''))"
proof -
  have h: "dim amu_per_cm3 = MassDensity" "offset_pc None = Inr (Num 0)"
    by (simp_all add: offset_pc_None)
  have mm: "make_map uniform_cloud plot_resolution 10 None None =
      Inr \<lparr>gvals = field_grid (\<lambda>_ _. Num 1) 10 plot_resolution (Num 0) (Num 0), gunit = amu_per_cm3\<rparr>"
    using uniform_cloud_field h(2) h(2) by (rule make_map_field)
  obtain img where li: "log_image (\<lparr>gvals = field_grid (\<lambda>_ _. Num 1) 10 plot_resolution (Num 0) (Num 0),
      gunit = amu_per_cm3\<rparr>\<lparr>gvals := transpose (gvals \<lparr>gvals = field_grid (\<lambda>_ _. Num 1) 10 plot_resolution
      (Num 0) (Num 0), gunit = amu_per_cm3\<rparr>)\<rparr>) = Inr img"
    using h(1) by (simp add: log_image_Inr)
  have st: "\<not> is_empty (one_star\<lparr>star_x := \<lparr>qvals = [Num 0], vunit = kms\<rparr>\<rparr>)"
    "dim (vunit (star_x (one_star\<lparr>star_x := \<lparr>qvals = [Num 0], vunit = kms\<rparr>\<rparr>))) \<noteq> Length"
    by (simp_all add: is_empty_def one_star_def)
  show ?thesis
    using plot_star_unit_error [OF mm plot_extent_Inr [OF h(2) h(2)] li st, of "\<lambda>_. ''1.0''"]
    by (simp add: kms_def)
qed

section \<open>Values drawn\<close>

lemma star_sizes_Num:
  assumes "qvals m = map Num ms" "sum_list ms \<noteq> 0"
  shows "star_sizes m = map (\<lambda>a. Num (3 * a / (sum_list ms / real (length ms)))) ms"
proof -
  have "ms \<noteq> []" using assms(2) by auto
  then have "fmean (qvals m) = Num (sum_list ms / real (length ms))"
    using assms(1) by (simp add: fmean_Num)
  moreover have "sum_list ms / real (length ms) \<noteq> 0"
    using assms(2) \<open>ms \<noteq> []\<close> by simp
  ultimately show ?thesis
    using assms(1) by (simp add: star_sizes_def)
qed


text \<open>C22: A star whose mass equals the mean mass gets marker size exactly 3.\<close>

theorem star_sizes_mean_mass:
  assumes "qvals m = map Num ms" "sum_list ms \<noteq> 0" "k < length ms"
    and "ms ! k = sum_list ms / real (length ms)"
  shows "star_sizes m ! k = Num 3"
proof -
  have "sum_list ms / real (length ms) \<noteq> 0" using assms(2,3) by auto
  with assms show ?thesis by (simp add: star_sizes_Num)
qed

theorem star_sizes_mean_mass_witness:
  "qvals \<lparr>qvals = [Num 1, Num 2, Num 3], vunit = msun\<rparr> = map Num [1, 2, 3] \<and>
   sum_list [1, 2, 3 :: real] \<noteq> 0 \<and> (1::nat) < length [1, 2, 3 :: real] \<and>
   [1, 2, 3 :: real] ! 1 = sum_list [1, 2, 3 :: real] / real (length [1, 2, 3 :: real]) \<and>
   star_sizes \<lparr>qvals = [Num 1, Num 2, Num 3], vunit = msun\<rparr> ! 1 = Num 3"
  using star_sizes_mean_mass [of "\<lparr>qvals = [Num 1, Num 2, Num 3], vunit = msun\<rparr>" "[1, 2, 3]" 1] by simp


text \<open>C23: The marker sizes of n stars with non-zero total mass add up to exactly 3n.\<close>

theorem star_sizes_total:
  assumes "qvals m = map Num ms" "sum_list ms \<noteq> 0"
  shows "fsum (star_sizes m) = Num (3 * real (length ms))"
proof -
  define c where "c = 3 / (sum_list ms / real (length ms))"
  have ne: "ms \<noteq> []" using assms(2) by auto
  have A: "star_sizes m = map Num (map (\<lambda>a. c * a) ms)"
    using assms by (simp add: star_sizes_Num comp_def c_def)
  have "sum_list (map (\<lambda>a. c * a) ms) = c * sum_list ms"
    using sum_list_const_mult [of c "\<lambda>a. a" ms] by simp
  also have "\<dots> = 3 * real (length ms)"
    using assms(2) ne by (simp add: c_def field_simps)
  finally have B: "sum_list (map (\<lambda>a. c * a) ms) = 3 * real (length ms)" .
  show ?thesis by (simp only: A fsum_Num B)
qed

theorem star_sizes_total_witness:
  "qvals \<lparr>qvals = [Num 1, Num 5], vunit = msun\<rparr> = map Num [1, 5] \<and> sum_list [1, 5 :: real] \<noteq> 0 \<and>
   fsum (star_sizes \<lparr>qvals = [Num 1, Num 5], vunit = msun\<rparr>) = Num 6"
  using star_sizes_total [of "\<lparr>qvals = [Num 1, Num 5], vunit = msun\<rparr>" "[1, 5]"] by simp


text \<open>C24: Marker sizes do not depend on the unit the masses are stored in: converting the masses to any other mass unit (positive factors) gives the same sizes.\<close>

theorem star_sizes_unit_free:
  assumes "qvec_value_in m u = Inr vs" "0 < factor (vunit m)" "0 < factor u"
  shows "star_sizes \<lparr>qvals = vs, vunit = u\<rparr> = star_sizes m"
proof -
  have c: "0 < factor (vunit m) / factor u" using assms(2,3) by simp
  have "vs = map (\<lambda>a. fmul a (Num (factor (vunit m) / factor u))) (qvals m)"
    using assms(1) by (auto simp: qvec_value_in_def conversion_def split: if_splits)
  then show ?thesis
    using c by (simp add: star_sizes_def fmean_scale fdiv_scale_both)
qed

theorem star_sizes_unit_free_witness:
  "qvec_value_in \<lparr>qvals = [Num 2, Num 4], vunit = msun\<rparr> \<lparr>uname = ''kg'', factor = 1, dim = Mass\<rparr> =
     Inr [Num (2 * (198892 * 10 ^ 25)), Num (4 * (198892 * 10 ^ 25))] \<and>
   star_sizes \<lparr>qvals = [Num (2 * (198892 * 10 ^ 25)), Num (4 * (198892 * 10 ^ 25))],
     vunit = \<lparr>uname = ''kg'', factor = 1, dim = Mass\<rparr>\<rparr> = [Num 2, Num 4]"
proof -
  have v: "qvec_value_in \<lparr>qvals = [Num 2, Num 4], vunit = msun\<rparr> \<lparr>uname = ''kg'', factor = 1, dim = Mass\<rparr> =
     Inr [Num (2 * (198892 * 10 ^ 25)), Num (4 * (198892 * 10 ^ 25))]"
    by (simp add: qvec_value_in_def msun_def)
  have s: "star_sizes \<lparr>qvals = [Num 2, Num 4], vunit = msun\<rparr> = [Num 2, Num 4]"
    by (simp add: star_sizes_def fmean_fsum fsum_def)
  have "star_sizes \<lparr>qvals = [Num (2 * (198892 * 10 ^ 25)), Num (4 * (198892 * 10 ^ 25))],
     vunit = \<lparr>uname = ''kg'', factor = 1, dim = Mass\<rparr>\<rparr> = [Num 2, Num 4]"
    using star_sizes_unit_free [OF v] s by (simp add: msun_def)
  with v show ?thesis by blast
qed

text \<open>C27: If all star masses are zero the mean is zero and every marker size is NaN (0/0), not an error.\<close>

theorem star_sizes_zero_mass:
  assumes "qvals m = replicate n (Num 0)" "0 < n"
  shows "star_sizes m = replicate n NaN"
proof -
  have "fmean (map Num (replicate n 0)) = Num (sum_list (replicate n (0::real)) / real (length (replicate n (0::real))))"
    using assms(2) by (intro fmean_Num) simp
  then have "fmean (qvals m) = Num 0"
    using assms(1) by (simp add: sum_list_replicate)
  then show ?thesis using assms(1) by (simp add: star_sizes_def)
qed

theorem star_sizes_zero_mass_witness:
  "qvals \<lparr>qvals = [Num 0, Num 0], vunit = msun\<rparr> = replicate 2 (Num 0) \<and> 0 < (2::nat) \<and>
   star_sizes \<lparr>qvals = [Num 0, Num 0], vunit = msun\<rparr> = [NaN, NaN]"
  using star_sizes_zero_mass [of "\<lparr>qvals = [Num 0, Num 0], vunit = msun\<rparr>" 2] by (simp add: numeral_eq_Suc)


text \<open>C11: The scatter is drawn at the stars' own x and y in parsec: the code negates x twice (line 80 and line 82), so the plotted x is not mirrored.\<close>

theorem star_overlay_positions:
  assumes "star_overlay st = Inr (x, y, m)"
  shows "qvec_value_in (star_x st) parsec = Inr x \<and> qvec_value_in (star_y st) parsec = Inr y \<and>
         m = star_sizes (star_mass st)"
  using assms by (auto simp: star_overlay_def ebind_eq_Inr_iff comp_def)

theorem star_overlay_positions_witness:
  "star_overlay one_star = Inr ([Num 0], [Num 0], star_sizes (star_mass one_star)) \<and>
   qvec_value_in (star_x one_star) parsec = Inr [Num 0]"
proof -
  have o: "star_overlay one_star = Inr ([Num 0], [Num 0], star_sizes (star_mass one_star))"
    by (simp add: star_overlay_def one_star_def qvec_value_in_def)
  show ?thesis using o star_overlay_positions [OF o] by blast
qed


lemma log_image_amu:
  "gunit rho = amu_per_cm3 \<Longrightarrow>
   log_image rho = Inr (map (map (\<lambda>d. flog10 (fadd (Num (1 / 100000)) d))) (gvals rho))"
  using qgrid_value_in_own_unit [of rho] by (simp add: log_image_def amu_per_cm3_def)


text \<open>C16: For a non-negative density the log-scaled image value is finite: log10(1e-5 + density).\<close>

theorem log_image_defined:
  assumes "gunit rho = amu_per_cm3" "log_image rho = Inr img"
    and "i < length (gvals rho)" "j < length (gvals rho ! i)" "gvals rho ! i ! j = Num d" "0 \<le> d"
  shows "img ! i ! j = Num (log 10 (1 / 100000 + d)) \<and> is_finite (img ! i ! j)"
proof -
  have "0 < 1 / 100000 + d" using assms(6) by simp
  with assms show ?thesis by (auto simp: log_image_amu)
qed

theorem log_image_defined_witness:
  "gunit \<lparr>gvals = [[Num 0]], gunit = amu_per_cm3\<rparr> = amu_per_cm3 \<and>
   log_image \<lparr>gvals = [[Num 0]], gunit = amu_per_cm3\<rparr> = Inr [[Num (log 10 (1 / 100000))]] \<and>
   (0::nat) < length [[Num 0]] \<and> (0::nat) < length [Num 0] \<and> (0::real) \<le> 0 \<and>
   is_finite ([[Num (log 10 (1 / 100000))]] ! 0 ! 0)"
proof -
  have l: "log_image \<lparr>gvals = [[Num 0]], gunit = amu_per_cm3\<rparr> = Inr [[Num (log 10 (1 / 100000))]]"
    by (simp add: log_image_amu)
  show ?thesis
    using log_image_defined [OF _ l, of 0 0 0] l by simp
qed





text \<open>C28: With an empty title the composer titles the figure "Molecular cloud at time=" followed by the time in Myr and the unit name.\<close>

theorem title_default:
  assumes "dim (qunit time) = Time"
  shows "title_text repr [] time =
           Inr (''Molecular cloud at time='' @ repr (fmul (qval time) (Num (factor (qunit time) / factor myr))) @ '' Myr'')"
  using assms by (rule title_text_default)

theorem title_default_witness:
  "dim (qunit \<lparr>qval = Num 1, qunit = myr\<rparr>) = Time \<and>
   title_text (\<lambda>_. ''1.0'') [] \<lparr>qval = Num 1, qunit = myr\<rparr> = Inr ''Molecular cloud at time=1.0 Myr''"
  using title_default [of "\<lparr>qval = Num 1, qunit = myr\<rparr>" "\<lambda>_. ''1.0''"] by simp

end
