(* ===== verification/Screen.thy ===== *)
theory Screen
  imports Scene
begin

text \<open>
  Where the two layers land on the screen. The composer draws the image and the stars in
  data coordinates on one axes and then sets the x limits to \<open>(xmax, xmin)\<close>; the
  backend's \<open>axis_fraction\<close> maps a data coordinate to its place across the axes. This
  theory relates a sample point, the image pixel that shows it and the screen position of
  a star at that point.
\<close>

section \<open>Geometry of one axis\<close>

lemma axis_fraction_antitone:
  "r < l \<Longrightarrow> a \<le> b \<Longrightarrow> axis_fraction (l, r) b \<le> axis_fraction (l, r) a"
  by (simp add: axis_fraction_def divide_right_mono_neg)

lemma axis_fraction_mono:
  "l < r \<Longrightarrow> a \<le> b \<Longrightarrow> axis_fraction (l, r) a \<le> axis_fraction (l, r) b"
  by (simp add: axis_fraction_def divide_right_mono)

lemma axis_fraction_ends:
  "r \<noteq> l \<Longrightarrow> axis_fraction (l, r) l = 0 \<and> axis_fraction (l, r) r = 1"
  by (simp add: axis_fraction_def)

lemma axis_fraction_in_unit_iff:
  "l \<noteq> r \<Longrightarrow> (0 \<le> axis_fraction (l, r) v \<and> axis_fraction (l, r) v \<le> 1) \<longleftrightarrow> min l r \<le> v \<and> v \<le> max l r"
  by (cases "l < r") (auto simp: axis_fraction_def zero_le_divide_iff divide_le_eq)

lemma run_star_screen:
  assumes "samples_field sph f u" "dim u = MassDensity"
    and "offset_pc ox = Inr (Num a)" "offset_pc oy = Inr (Num b)"
    and px: "vunit (star_x st) = parsec" and py: "vunit (star_y st) = parsec" and ne: "\<not> is_empty st"
    and "title_text repr ttl time = Inr t"
    and "k < length (qvals (star_x st))" "k < length (qvals (star_y st))"
    and kx: "qvals (star_x st) ! k = Num s" and ky: "qvals (star_y st) ! k = Num v"
  shows "\<exists>xs ys m.
     scatters (run_calls (fst (plot_hydro_and_stars repr time sph st L fn ox oy ttl))) = [(xs, ys, m)] \<and>
     xlimits (run_calls (fst (plot_hydro_and_stars repr time sph st L fn ox oy ttl))) =
       Some (Num (L / 2 + a), Num (- L / 2 + a)) \<and>
     ylimits (run_calls (fst (plot_hydro_and_stars repr time sph st L fn ox oy ttl))) =
       Some (Num (- L / 2 + b), Num (L / 2 + b)) \<and>
     xs ! k = Num s \<and> ys ! k = Num v"
proof -
  have dims: "dim (vunit (star_x st)) = Length" "dim (vunit (star_y st)) = Length"
    using px py by simp_all
  show ?thesis
    using plot_run_state [OF assms(1-4) dims assms(8), of L fn] ne assms(9,10) kx ky
    by (simp add: star_points_parsec [OF px py])
qed

lemma sample_in_pixel:
  assumes "0 < N" "c \<le> N" "0 < L" "sample_at L N (Num d) c = Num s"
  shows "fst (pixel_interval (- L / 2 + d) (L / 2 + d) (N + 1) c) \<le> s \<and>
         s \<le> snd (pixel_interval (- L / 2 + d) (L / 2 + d) (N + 1) c)"
proof -
  define n where "n = real N"
  define k where "k = real c"
  have n: "0 < n" using assms(1) by (simp add: n_def)
  have kn: "k \<le> n" "0 \<le> k" using assms(2) by (simp_all add: n_def k_def)
  have s: "s = - L / 2 + d + k * L / n"
    using assms(1,4) n by (simp add: sample_at_def grid_coord_pos n_def k_def field_simps)
  have pi: "pixel_interval (- L / 2 + d) (L / 2 + d) (N + 1) c =
              (- L / 2 + d + k * L / (n + 1), - L / 2 + d + (k + 1) * L / (n + 1))"
    by (simp add: pixel_interval_def n_def k_def algebra_simps)
  have lo: "k * L / (n + 1) \<le> k * L / n"
    using n kn assms(3) by (simp add: frac_le)
  have hi: "k * L / n \<le> (k + 1) * L / (n + 1)"
    using n kn assms(3) by (simp add: field_simps)
  show ?thesis unfolding pi fst_conv snd_conv s using lo hi by simp
qed

section \<open>Both layers on the screen\<close>

text \<open>C5: On the screen a star sitting at sample point (x_c, y_r) is drawn within the horizontal span of image column c and the vertical span of image row r, and that pixel (r, c) shows log10(1e-5 + density) at the star's own position; the x axis is mirrored, so the image's xmin edge (column 0) is at the right of the axes, while row 0 is at the bottom.\<close>

theorem star_on_screen_pixel:
  assumes "samples_field sph f u" "dim u = MassDensity"
    and "offset_pc ox = Inr (Num a)" "offset_pc oy = Inr (Num b)"
    and px: "vunit (star_x st) = parsec" and py: "vunit (star_y st) = parsec" and ne: "\<not> is_empty st"
    and "title_text repr ttl time = Inr t"
    and "k < length (qvals (star_x st))"
    and kx: "qvals (star_x st) ! k = Num s" and sc: "sample_at L plot_resolution (Num a) c = Num s"
    and "c \<le> plot_resolution" "0 < L"
    and "k < length (qvals (star_y st))"
    and ky: "qvals (star_y st) ! k = Num v" and sr: "sample_at L plot_resolution (Num b) r = Num v"
    and "r \<le> plot_resolution"
  shows "\<exists>xs ys m img.
     scatters (run_calls (fst (plot_hydro_and_stars repr time sph st L fn ox oy ttl))) = [(xs, ys, m)] \<and>
     images (run_calls (fst (plot_hydro_and_stars repr time sph st L fn ox oy ttl))) =
       [(img, grid_extent L (Num a) (Num b), OriginLower)] \<and>
     img ! r ! c = flog10 (fadd (Num (1 / 100000)) (fmul (f (Num s) (Num v)) (Num (factor u / factor amu_per_cm3)))) \<and>
     xlimits (run_calls (fst (plot_hydro_and_stars repr time sph st L fn ox oy ttl))) =
       Some (Num (L / 2 + a), Num (- L / 2 + a)) \<and>
     xs ! k = Num s \<and>
     axis_fraction (L / 2 + a, - L / 2 + a) (snd (pixel_interval (- L / 2 + a) (L / 2 + a) (plot_resolution + 1) c))
       \<le> axis_fraction (L / 2 + a, - L / 2 + a) s \<and>
     axis_fraction (L / 2 + a, - L / 2 + a) s
       \<le> axis_fraction (L / 2 + a, - L / 2 + a) (fst (pixel_interval (- L / 2 + a) (L / 2 + a) (plot_resolution + 1) c)) \<and>
     axis_fraction (L / 2 + a, - L / 2 + a) (- L / 2 + a) = 1 \<and>
     ylimits (run_calls (fst (plot_hydro_and_stars repr time sph st L fn ox oy ttl))) =
       Some (Num (- L / 2 + b), Num (L / 2 + b)) \<and>
     ys ! k = Num v \<and>
     axis_fraction (- L / 2 + b, L / 2 + b) (fst (pixel_interval (- L / 2 + b) (L / 2 + b) (plot_resolution + 1) r))
       \<le> axis_fraction (- L / 2 + b, L / 2 + b) v \<and>
     axis_fraction (- L / 2 + b, L / 2 + b) v
       \<le> axis_fraction (- L / 2 + b, L / 2 + b) (snd (pixel_interval (- L / 2 + b) (L / 2 + b) (plot_resolution + 1) r)) \<and>
     axis_fraction (- L / 2 + b, L / 2 + b) (- L / 2 + b) = 0"
proof -
  have dims: "dim (vunit (star_x st)) = Length" "dim (vunit (star_y st)) = Length"
    using px py by simp_all
  note run = plot_run_state [OF assms(1-4) dims assms(8), of L fn]
  have N: "0 < plot_resolution" by (simp add: plot_resolution_def)
  note pix = sample_in_pixel [OF N assms(12,13) sc]
  have lr: "- L / 2 + a < L / 2 + a" using assms(13) by simp
  have scr: "axis_fraction (L / 2 + a, - L / 2 + a) (snd (pixel_interval (- L / 2 + a) (L / 2 + a) (plot_resolution + 1) c))
       \<le> axis_fraction (L / 2 + a, - L / 2 + a) s \<and>
     axis_fraction (L / 2 + a, - L / 2 + a) s
       \<le> axis_fraction (L / 2 + a, - L / 2 + a) (fst (pixel_interval (- L / 2 + a) (L / 2 + a) (plot_resolution + 1) c))"
    using pix axis_fraction_antitone [OF lr] by blast
  have edge: "axis_fraction (L / 2 + a, - L / 2 + a) (- L / 2 + a) = 1"
    using axis_fraction_ends lr by simp
  note piy = sample_in_pixel [OF N assms(17,13) sr]
  have lry: "- L / 2 + b < L / 2 + b" using assms(13) by simp
  have scry: "axis_fraction (- L / 2 + b, L / 2 + b) (fst (pixel_interval (- L / 2 + b) (L / 2 + b) (plot_resolution + 1) r))
       \<le> axis_fraction (- L / 2 + b, L / 2 + b) v \<and>
     axis_fraction (- L / 2 + b, L / 2 + b) v
       \<le> axis_fraction (- L / 2 + b, L / 2 + b) (snd (pixel_interval (- L / 2 + b) (L / 2 + b) (plot_resolution + 1) r))"
    using piy axis_fraction_mono [OF lry] by blast
  have edgey: "axis_fraction (- L / 2 + b, L / 2 + b) (- L / 2 + b) = 0"
    by (simp add: axis_fraction_def)
  have pix: "transpose (field_grid f L plot_resolution (Num a) (Num b)) ! r ! c = f (Num s) (Num v)"
    using transpose_field_grid_nth [OF assms(17,12), of f L "Num a" "Num b"] sc sr by simp
  show ?thesis
    using run ne kx ky scr edge scry edgey transpose_field_grid_nth [OF assms(17,12), of f L "Num a" "Num b"] pix
    by (simp add: star_points_parsec [OF px py] grid_extent_def)
qed

theorem star_on_screen_pixel_witness:
  "\<exists>xs ys m img.
     scatters (run_calls (fst (plot_hydro_and_stars (\<lambda>_. ''1.0'') \<lparr>qval = Num 1, qunit = myr\<rparr>
        uniform_cloud one_star 10 None None None ''GMC''))) = [(xs, ys, m)] \<and>
     xs ! 0 = Num 0 \<and>
     axis_fraction (5, - 5) (snd (pixel_interval (- 5) 5 (plot_resolution + 1) 100)) \<le> axis_fraction (5, - 5) 0 \<and>
     axis_fraction (5, - 5) 0 \<le> axis_fraction (5, - 5) (fst (pixel_interval (- 5) 5 (plot_resolution + 1) 100)) \<and>
     axis_fraction (5, - 5) (- 5) = 1"
proof -
  have p: "vunit (star_x one_star) = parsec" "vunit (star_y one_star) = parsec" "\<not> is_empty one_star"
    by (simp_all add: one_star_def is_empty_def)
  have k: "(0::nat) < length (qvals (star_x one_star))" "qvals (star_x one_star) ! 0 = Num 0"
    "(0::nat) < length (qvals (star_y one_star))" "qvals (star_y one_star) ! 0 = Num 0"
    by (simp_all add: one_star_def)
  have c: "sample_at 10 plot_resolution (Num 0) 100 = Num 0" "(100::nat) \<le> plot_resolution"
    by (simp_all add: sample_at_def grid_coord_pos plot_resolution_def)
  have L: "(0::real) < 10" by simp
  show ?thesis
    using star_on_screen_pixel [OF uniform_cloud_field witness_hyps(1,2,2) p witness_hyps(5) k(1,2) c L k(3,4) c, of None]
    by auto
qed

text \<open>C6: Stars outside the sampled square are silently clipped: a star is drawn inside the axes (both axis fractions in [0, 1]) exactly when its position in parsec lies within the extent [-L/2 + a, L/2 + a] x [-L/2 + b, L/2 + b]; no warning or error is raised for the others.\<close>

theorem star_visible_iff_inside:
  assumes "samples_field sph f u" "dim u = MassDensity"
    and "offset_pc ox = Inr (Num a)" "offset_pc oy = Inr (Num b)"
    and "vunit (star_x st) = parsec" "vunit (star_y st) = parsec" "\<not> is_empty st"
    and "title_text repr ttl time = Inr t"
    and "k < length (qvals (star_x st))" "k < length (qvals (star_y st))"
    and "qvals (star_x st) ! k = Num s" "qvals (star_y st) ! k = Num v"
    and L: "0 < L"
  shows "\<exists>xs ys m.
     scatters (run_calls (fst (plot_hydro_and_stars repr time sph st L fn ox oy ttl))) = [(xs, ys, m)] \<and>
     xlimits (run_calls (fst (plot_hydro_and_stars repr time sph st L fn ox oy ttl))) =
       Some (Num (L / 2 + a), Num (- L / 2 + a)) \<and>
     ylimits (run_calls (fst (plot_hydro_and_stars repr time sph st L fn ox oy ttl))) =
       Some (Num (- L / 2 + b), Num (L / 2 + b)) \<and>
     xs ! k = Num s \<and> ys ! k = Num v \<and>
     ((0 \<le> axis_fraction (L / 2 + a, - L / 2 + a) s \<and> axis_fraction (L / 2 + a, - L / 2 + a) s \<le> 1 \<and>
       0 \<le> axis_fraction (- L / 2 + b, L / 2 + b) v \<and> axis_fraction (- L / 2 + b, L / 2 + b) v \<le> 1) \<longleftrightarrow>
      (- L / 2 + a \<le> s \<and> s \<le> L / 2 + a \<and> - L / 2 + b \<le> v \<and> v \<le> L / 2 + b))"
proof -
  have x: "L / 2 + a \<noteq> - L / 2 + a" and y: "- L / 2 + b \<noteq> L / 2 + b" using L by simp_all
  have mx: "min (L / 2 + a) (- L / 2 + a) = - L / 2 + a" "max (L / 2 + a) (- L / 2 + a) = L / 2 + a"
    and my: "min (- L / 2 + b) (L / 2 + b) = - L / 2 + b" "max (- L / 2 + b) (L / 2 + b) = L / 2 + b"
    using L by simp_all
  show ?thesis
    using run_star_screen [OF assms(1-12), of L fn] axis_fraction_in_unit_iff [OF x, of s]
      axis_fraction_in_unit_iff [OF y, of v]
    unfolding mx my by blast
qed

theorem star_visible_iff_inside_witness:
  "\<exists>xs ys m. scatters (run_calls (fst (plot_hydro_and_stars (\<lambda>_. ''1.0'') \<lparr>qval = Num 1, qunit = myr\<rparr>
        uniform_cloud (one_star\<lparr>star_x := \<lparr>qvals = [Num 7], vunit = parsec\<rparr>\<rparr>) 10 None None None ''GMC''))) = [(xs, ys, m)] \<and>
     xs ! 0 = Num 7 \<and>
     \<not> (0 \<le> axis_fraction (5, - 5) 7 \<and> axis_fraction (5, - 5) 7 \<le> 1 \<and>
          0 \<le> axis_fraction (- 5, 5) 0 \<and> axis_fraction (- 5, 5) 0 \<le> 1)"
proof -
  have p: "vunit (star_x (one_star\<lparr>star_x := \<lparr>qvals = [Num 7], vunit = parsec\<rparr>\<rparr>)) = parsec" "vunit (star_y (one_star\<lparr>star_x := \<lparr>qvals = [Num 7], vunit = parsec\<rparr>\<rparr>)) = parsec" "\<not> is_empty (one_star\<lparr>star_x := \<lparr>qvals = [Num 7], vunit = parsec\<rparr>\<rparr>)"
    by (simp_all add: one_star_def is_empty_def)
  have k: "(0::nat) < length (qvals (star_x (one_star\<lparr>star_x := \<lparr>qvals = [Num 7], vunit = parsec\<rparr>\<rparr>)))" "(0::nat) < length (qvals (star_y (one_star\<lparr>star_x := \<lparr>qvals = [Num 7], vunit = parsec\<rparr>\<rparr>)))"
    "qvals (star_x (one_star\<lparr>star_x := \<lparr>qvals = [Num 7], vunit = parsec\<rparr>\<rparr>)) ! 0 = Num 7" "qvals (star_y (one_star\<lparr>star_x := \<lparr>qvals = [Num 7], vunit = parsec\<rparr>\<rparr>)) ! 0 = Num 0"
    by (simp_all add: one_star_def)
  have L: "(0::real) < 10" by simp
  show ?thesis
    using star_visible_iff_inside [OF uniform_cloud_field witness_hyps(1,2,2) p witness_hyps(5) k L, of None]
    by auto
qed

end
