(* ===== verification/Session.thy ===== *)
theory Session
  imports Scene
begin

text \<open>
  Repeated calls of the composer in one Python process. pyplot keeps its figures in
  process-wide state, and \<open>plot_hydro_and_stars\<close> opens a figure on every call and never
  closes it (\<open>pyplot.close(fig)\<close> is commented out, line 95). A session is the
  sequence of runs from a fresh backend, each run applying its calls to the state the
  previous runs left: \<open>session n k s\<close> holds when \<open>n\<close> runs, \<open>k\<close> of them returning
  normally, leave the backend in state \<open>s\<close>. The invariant \<open>session_inv\<close> bounds what
  the state can hold, and is proved by rule induction over the session.
\<close>

inductive session :: "nat \<Rightarrow> nat \<Rightarrow> fig_state \<Rightarrow> bool" where
  start: "session 0 0 init_fig_state"
| run: "session n k s \<Longrightarrow>
    session (Suc n) (if snd (plot_hydro_and_stars repr time sph st L fn ox oy ttl) = Inr () then Suc k else k)
      (foldl apply_call s (fst (plot_hydro_and_stars repr time sph st L fn ox oy ttl)))"

inductive_cases session_0E: "session 0 k s"

definition session_inv :: "nat \<Rightarrow> nat \<Rightarrow> fig_state \<Rightarrow> bool" where
  "session_inv n k s \<longleftrightarrow>
     open_figures s = n \<and> shown s = k \<and> k \<le> length (images s) \<and> length (images s) \<le> n \<and>
     length (scatters s) \<le> length (images s) \<and> saved s = []"

section \<open>One run\<close>

lemma plot_call_counts:
  "length (filter is_figure (fst (plot_hydro_and_stars repr time sph st L fn ox oy ttl))) = 1 \<and>
   length (filter is_imshow (fst (plot_hydro_and_stars repr time sph st L fn ox oy ttl))) \<le> 1 \<and>
   length (filter is_scatter (fst (plot_hydro_and_stars repr time sph st L fn ox oy ttl))) \<le>
     length (filter is_imshow (fst (plot_hydro_and_stars repr time sph st L fn ox oy ttl))) \<and>
   length (filter is_show (fst (plot_hydro_and_stars repr time sph st L fn ox oy ttl))) \<le>
     length (filter is_imshow (fst (plot_hydro_and_stars repr time sph st L fn ox oy ttl)))"
  using plot_trace_shape [of repr time sph st L fn ox oy ttl]
proof
  assume "fst (plot_hydro_and_stars repr time sph st L fn ox oy ttl) = [Figure 6 6, AddSubplot 1 1 1]"
  then show ?thesis by simp
next
  assume "\<exists>img ext ocs t j. fst (plot_hydro_and_stars repr time sph st L fn ox oy ttl) =
      [Figure 6 6, AddSubplot 1 1 1, Imshow img ext OriginLower] @ take j (ocs @ program_tail ext t) \<and>
      (ocs = [] \<or> (\<exists>x y m. ocs = [Scatter x y m ''white'' 0]))"
  then obtain img ext ocs t j where eq: "fst (plot_hydro_and_stars repr time sph st L fn ox oy ttl) =
      [Figure 6 6, AddSubplot 1 1 1, Imshow img ext OriginLower] @ take j (ocs @ program_tail ext t)"
    and ocs: "ocs = [] \<or> (\<exists>x y m. ocs = [Scatter x y m ''white'' 0])" by blast
  have "length (filter P (take j (ocs @ program_tail ext t))) \<le> length (filter P (ocs @ program_tail ext t))" for P
    by (rule length_filter_take)
  from this [of is_figure] this [of is_imshow] this [of is_scatter] this [of is_show] ocs
  show ?thesis by (auto simp: eq program_tail_def)
qed

lemma is_show_iff: "is_show c \<longleftrightarrow> c = Show"
  by (cases c) auto

lemma plot_show_count:
  "length (filter is_show (fst (plot_hydro_and_stars repr time sph st L fn ox oy ttl))) =
     (if snd (plot_hydro_and_stars repr time sph st L fn ox oy ttl) = Inr () then 1 else 0)"
proof -
  let ?cs = "fst (plot_hydro_and_stars repr time sph st L fn ox oy ttl)"
  have le: "length (filter is_show ?cs) \<le> 1"
    using plot_call_counts [of repr time sph st L fn ox oy ttl] by linarith
  have "Show \<in> set ?cs \<longleftrightarrow> snd (plot_hydro_and_stars repr time sph st L fn ox oy ttl) = Inr ()"
    using plot_shows_iff_returns [of repr time sph st L fn ox oy ttl] by (simp add: shows_iff_returns_def)
  moreover have "Show \<in> set ?cs \<longleftrightarrow> filter is_show ?cs \<noteq> []"
    by (auto simp: filter_empty_conv is_show_iff)
  ultimately show ?thesis using le by (cases "filter is_show ?cs") auto
qed

lemma session_inv_run:
  "session_inv n k s \<Longrightarrow>
   session_inv (Suc n) (if snd (plot_hydro_and_stars repr time sph st L fn ox oy ttl) = Inr () then Suc k else k)
     (foldl apply_call s (fst (plot_hydro_and_stars repr time sph st L fn ox oy ttl)))"
  using foldl_apply_call_counts [of s "fst (plot_hydro_and_stars repr time sph st L fn ox oy ttl)"]
    plot_call_counts [of repr time sph st L fn ox oy ttl] plot_show_count [of repr time sph st L fn ox oy ttl]
    saved_foldl [OF plot_no_save [of repr time sph st L fn ox oy ttl], of s]
  by (auto simp: session_inv_def)

section \<open>The session invariant\<close>

text \<open>C9: In every session of n calls of which k returned normally, the backend holds exactly n open figures (none is ever closed), has shown exactly k times, holds between k and n images with no more scatter overlays than images, and has saved no file.\<close>

theorem session_invariant: "session n k s \<Longrightarrow> session_inv n k s"
proof (induction rule: session.induct)
  case start
  then show ?case by (simp add: session_inv_def init_fig_state_def)
next
  case (run n k s repr time sph st L fn ox oy ttl)
  from run.IH show ?case by (rule session_inv_run)
qed

theorem session_invariant_witness:
  "session 2 1 (foldl apply_call
      (foldl apply_call init_fig_state
        (fst (plot_hydro_and_stars (\<lambda>_. ''1.0'') \<lparr>qval = Num 1, qunit = myr\<rparr> uniform_cloud one_star 10 None
           None None ''GMC'')))
      (fst (plot_hydro_and_stars (\<lambda>_. ''1.0'') \<lparr>qval = Num 1, qunit = myr\<rparr> uniform_cloud one_star 10 None
           (Some \<lparr>qval = Num 1, qunit = kms\<rparr>) None []))) \<and>
   open_figures (foldl apply_call
      (foldl apply_call init_fig_state
        (fst (plot_hydro_and_stars (\<lambda>_. ''1.0'') \<lparr>qval = Num 1, qunit = myr\<rparr> uniform_cloud one_star 10 None
           None None ''GMC'')))
      (fst (plot_hydro_and_stars (\<lambda>_. ''1.0'') \<lparr>qval = Num 1, qunit = myr\<rparr> uniform_cloud one_star 10 None
           (Some \<lparr>qval = Num 1, qunit = kms\<rparr>) None []))) = 2 \<and>
   shown (foldl apply_call
      (foldl apply_call init_fig_state
        (fst (plot_hydro_and_stars (\<lambda>_. ''1.0'') \<lparr>qval = Num 1, qunit = myr\<rparr> uniform_cloud one_star 10 None
           None None ''GMC'')))
      (fst (plot_hydro_and_stars (\<lambda>_. ''1.0'') \<lparr>qval = Num 1, qunit = myr\<rparr> uniform_cloud one_star 10 None
           (Some \<lparr>qval = Num 1, qunit = kms\<rparr>) None []))) = 1"
proof -
  have h: "dim (vunit (star_x one_star)) = Length" "dim (vunit (star_y one_star)) = Length"
    by (simp_all add: one_star_def)
  have r1: "snd (plot_hydro_and_stars (\<lambda>_. ''1.0'') \<lparr>qval = Num 1, qunit = myr\<rparr> uniform_cloud one_star 10 None
           None None ''GMC'') = Inr ()"
    using plot_run_state [OF uniform_cloud_field witness_hyps(1,2,2) h witness_hyps(5), of 10 None] by simp
  have r2: "snd (plot_hydro_and_stars (\<lambda>_. ''1.0'') \<lparr>qval = Num 1, qunit = myr\<rparr> uniform_cloud one_star 10 None
           (Some \<lparr>qval = Num 1, qunit = kms\<rparr>) None []) \<noteq> Inr ()"
    using make_map_speed_offset by (simp add: plot_hydro_and_stars_def)
  have ses: "session 2 1 (foldl apply_call
      (foldl apply_call init_fig_state
        (fst (plot_hydro_and_stars (\<lambda>_. ''1.0'') \<lparr>qval = Num 1, qunit = myr\<rparr> uniform_cloud one_star 10 None
           None None ''GMC'')))
      (fst (plot_hydro_and_stars (\<lambda>_. ''1.0'') \<lparr>qval = Num 1, qunit = myr\<rparr> uniform_cloud one_star 10 None
           (Some \<lparr>qval = Num 1, qunit = kms\<rparr>) None [])))"
    using session.run [OF session.run [OF session.start, of "\<lambda>_. ''1.0''" "\<lparr>qval = Num 1, qunit = myr\<rparr>"
        uniform_cloud one_star 10 None None None "''GMC''"], of "\<lambda>_. ''1.0''" "\<lparr>qval = Num 1, qunit = myr\<rparr>"
        uniform_cloud one_star 10 None "Some \<lparr>qval = Num 1, qunit = kms\<rparr>" None "[]"] r1 r2
    by (simp add: numeral_2_eq_2)
  show ?thesis using ses session_invariant [OF ses] by (simp add: session_inv_def)
qed

end
