(* ===== verification/Spec2Isabelle.thy ===== *)
theory Spec2Isabelle
  imports Screen Session Particles
begin

text \<open>
  \<^bold>\<open>Verification of \<open>src/plotting_class.py\<close> (rieder/exeter-amuse-tutorial).\<close>

  \<^medskip>
  \<^emph>\<open>The program.\<close> One module with two functions. \<open>make_map\<close> (lines 10--34), the
  grid sampler, builds an \<open>(N+1) \<times> (N+1)\<close> grid of points spanning \<open>L\<close> parsec,
  optionally shifted by offsets, asks the SPH code (\<open>get_hydro_state_at_point\<close>) for
  the fluid state there at \<open>z = 0\<close> with zero velocity, and reshapes the returned
  density into a grid. \<open>plot_hydro_and_stars\<close> (lines 37--94), the scene composer,
  calls the sampler at the fixed resolution \<open>N = 200\<close>, transposes the grid, draws
  \<open>log10(1e-5 + density)\<close> with \<open>imshow\<close> over the extent of the sampled square,
  scatters the stars with sizes \<open>3 m / mean(m)\<close>, inverts the x axis, labels and
  titles the axes and calls \<open>show\<close>. The SPH code, AMUSE's unit system, numpy and
  matplotlib are external collaborators.

  \<^medskip>
  \<^emph>\<open>The theories.\<close>
  \<^item> \<open>Prelude\<close>: the exceptions the module lets through (\<open>py_error\<close>), their
    propagation through a sequence of statements (\<open>ebind\<close>: the first \<open>Inl\<close> wins),
    rectangular grids (\<open>rect\<close>) with the row-major flatten and transpose laws.
  \<^item> \<open>Floats\<close>: numpy \<open>float64\<close> values as \<open>fval\<close> (exact reals, \<open>NaN\<close> and the
    two infinities) with IEEE-754 rules on the special values, \<open>log10\<close> and the
    reference sum \<open>fsum\<close> (a left fold). Rounding and the sign of zero are not
    modelled: every theorem is about exact arithmetic, which is what the spec's properties
    are stated in.
  \<^item> \<open>Summation\<close>: numpy's summation loop (\<open>pairwise_sum\<close>: 8 accumulators per
    block of at most 128 elements, \<open>pw_accumulate\<close> and \<open>pw_combine\<close>, recursive
    halving at \<open>pw_split\<close>, a multiple of 8) and \<open>fmean\<close> on top of it, as used by
    \<open>stars.mass.mean()\<close>. \<open>fval\<close> is a \<open>comm_monoid_add\<close> under \<open>fadd\<close>, and
    the library's \<open>sum_list\<close> laws prove the pairwise order equal to \<open>fsum\<close>.
  \<^item> \<open>Units\<close>: AMUSE units (name, SI factor, dimension), scalar, vector and grid
    quantities, \<open>value_in\<close>, in-place addition and \<open>as_string_in\<close>; conversion across
    dimensions raises \<open>IncompatibleUnits\<close>. Modelled from the spec and AMUSE's
    documented behaviour (the library is not in the repository).
  \<^item> \<open>Grid\<close>: \<open>make_map\<close> line by line: \<open>indices\<close> (\<open>numpy.indices\<close>),
    \<open>grid_coord\<close> (line 13), \<open>add_offset\<close> (lines 21--25), \<open>sample_coords\<close> (lines
    12--29, the six arguments of the evaluator as a \<open>probe\<close> record), \<open>unpack5\<close>
    (the five-name unpacking of line 31), \<open>reshape\<close>/\<open>chunks\<close> (line 33). The SPH
    code is a parameter \<open>sph :: hydro_eval\<close>; \<open>hydro_contract\<close> states its
    contract (spec section 6) and \<open>samples_field\<close> an evaluator that samples a density
    field \<open>f\<close>. Lemmas: shape of the result, entry \<open>(i, j)\<close> is the density at x
    sample \<open>i\<close> and y sample \<open>j\<close>, symmetry, span and spacing of the coordinates,
    the offset shift, the mid-plane, every exception path, the reshape laws.
  \<^item> \<open>Backend\<close>: the interface to matplotlib: \<open>plot_call\<close>, one constructor per
    pyplot call the module makes; a run of the composer is \<open>'a plot\<close>, the calls made
    before returning or raising together with the outcome (\<open>pbind\<close> sequences them);
    \<open>apply_call\<close>/\<open>run_calls\<close> give the figure state the calls leave;
    \<open>pixel_interval\<close> and \<open>axis_fraction\<close> give imshow's and the axis limits'
    geometry. Modelled from the spec and matplotlib's documented behaviour.
  \<^item> \<open>Scene\<close>: \<open>plot_hydro_and_stars\<close> as the sequence of calls of lines 48--94:
    \<open>plot_extent\<close> (53--62), \<open>log_image\<close> (64), \<open>star_sizes\<close> (78),
    \<open>star_overlay\<close> and \<open>overlay_stars\<close> (76--82), \<open>title_text\<close> (87--90),
    \<open>plot_resolution\<close> (the fixed \<open>N = 200\<close>). Lemmas: a run completes and ends
    with one \<open>show\<close>; the final figure state; \<open>filename\<close> is dead and nothing is
    saved; a run shows its figure exactly when it returns normally
    (\<open>plot_show_iff_completes\<close>, through \<open>shows_iff_returns\<close> of \<open>Backend\<close>);
    no overlay without stars; marker sizes, and that they do not depend on the mass unit;
    where the stars are drawn; the extent; the log floor; the title; the exception paths of
    the sampler, of the star positions and of the title, each with the exact prefix of
    calls made before it (the figure stays open and is never shown); the calls of every
    run are a prefix of the calls in program order (\<open>plot_trace_prefix\<close>).
  \<^item> \<open>Screen\<close>: both layers on the screen: \<open>axis_fraction\<close> under the inverted
    limits of line 83 is antitone, each sample lies in its pixel (\<open>sample_in_pixel\<close>),
    and a star at a sample point is drawn within the screen span of the pixel showing
    that sample, with column 0 at the right edge and row 0 at the bottom; a star is
    inside the axes exactly when it lies within the sampled square, so stars outside it
    are clipped (\<open>star_visible_iff_inside\<close>).
  \<^item> \<open>Session\<close>: repeated calls of the composer in one process, the way a simulation
    driver calls it, on pyplot's process-wide state: the inductive \<open>session n k s\<close>
    (\<open>n\<close> runs, \<open>k\<close> of them returning normally) and its invariant \<open>session_inv\<close>
    by rule induction: \<open>n\<close> open figures, \<open>k\<close> shows, no file saved. It rests on
    \<open>plot_trace_shape\<close> of \<open>Scene\<close>: every run's calls are the program-order calls
    (\<open>program_calls\<close>) cut after the first two or after \<open>imshow\<close>.
  \<^item> \<open>Particles\<close>: the star collection as AMUSE stores it, a sequence of particles
    (\<open>particle_set\<close>: mass, x, y per particle, a unit per attribute), and the column
    view \<open>columns\<close> the code reads (\<open>stars.mass\<close>, \<open>stars.x\<close>, \<open>stars.y\<close>,
    \<open>is_empty\<close>). Lemmas: the overlay refined to each particle (point \<open>i\<close> is
    particle \<open>i\<close> in parsec with size \<open>3 m\<^sub>i / mean(m)\<close>), the sizes do not depend on
    the order of the particles, and positive masses give sizes in \<open>(0, 3n]\<close>.
  \<^item> \<open>Spec2Isabelle\<close> (this theory): the properties that span the sampler, the composer
    and the backend: the image pixels hold the density at the matching sample (the
    transpose puts x along columns), the extent equals the sampled range, each sample lies
    inside its pixel but off its centre by up to half a pixel, and the orientation contract
    of spec section 9 (transpose, double negation of star x and inverted x limits together
    put each star over the density sampled at its position), and the boundary \<open>L = 0\<close>
    (\<open>plot_zero_size\<close>: one value everywhere, singular limits).

  \<^medskip>
  \<^emph>\<open>Bounds and termination.\<close> The module has no loop of its own: every recursion of
  the model (\<open>chunks\<close>, list functions) is structural except numpy's
  \<open>pairwise_sum\<close> and its accumulator loop \<open>pw_accumulate\<close>, whose termination
  is proved by the measure \<open>length\<close> (\<open>pw_split_inside\<close>: the split point lies
  strictly inside the array). Every definition is executable and no fuel is needed. The sampler's resolution is a parameter \<open>N\<close> for the
  sampler's lemmas and the constant \<open>plot_resolution = 200\<close> for the composer's.

  \<^medskip>
  \<^emph>\<open>What modelling showed.\<close> The code negates star x twice (lines 80 and 82), so
  stars are drawn at their own x, not mirrored as the spec says; with the inverted axis
  both layers are mirrored together (\<open>orientation_contract\<close>). imshow treats the
  sampled span as pixel edges while the samples are vertices, so the picture is off by up
  to half a pixel (\<open>sample_pixel_offset\<close>). numpy gives NaN or -inf below the log
  floor instead of the domain error the spec describes. Zero masses give NaN marker sizes.
  \<open>N/2.\<close> is float division, so the grid is exactly symmetric. \<open>N = 0\<close> samples at
  NaN. The figure created at line 48 stays open when a later step raises, and no call
  ever closes a figure: after \<open>n\<close> calls in one process \<open>n\<close> figures are open
  (\<open>session_invariant\<close>), which the spec's "ephemeral figure" does not say. Stars
  outside the sampled square are clipped by the limits of lines 83--84 without warning,
  and \<open>L = 0\<close> gives a one-valued image with identical limits; the spec covers neither.

  \<^medskip>
  \<^emph>\<open>Not modelled.\<close> The SPH solver itself (only its contract), rasterisation and the
  window system behind \<open>show\<close> (only the figure state the calls leave), Python's
  float-to-text conversion (the parameter \<open>repr\<close>), floating-point rounding, numpy's
  reduction machinery around its summation loop (buffering, seeding with the first
  element), the user closing a window after \<open>show\<close> on an interactive backend (the
  session counts the figures the code opened and never closed), matplotlib's checks on
  axis limits (the model records any limits: matplotlib raises \<open>ValueError\<close> for a NaN
  or infinite limit, which an infinite offset would produce, and widens identical
  limits with a warning), and the imports and docstring of lines 1--7. The module has no termination argument of its own to prove:
  it has no loop.

  \<^medskip>
  \<^emph>\<open>Status.\<close> Every line of \<open>src/plotting_class.py\<close> that computes or calls
  something is translated; what is left are the commented-out lines (the colour bar, the
  \<open>vmin\<close>/\<open>vmax\<close> of line 66, \<open>savefig\<close> and \<open>close\<close>), which the program does not
  run, and the imports and docstring. The external libraries are modelled as far as the
  module calls them: the SPH code by its contract, AMUSE's units and particle sets, numpy's
  arithmetic, summation and \<open>log10\<close>, and matplotlib's call effects and axis geometry;
  modelling more of them (the SPH kernel sum, rendering, the colour map) would model
  those libraries rather than this program.
\<close>

section \<open>Properties across the sampler, the composer and the backend\<close>


text \<open>C4: The composer transposes the sampled grid so that image row r, column c holds log10(1e-5 + density) at x sample c and y sample r: with origin lower, image columns run along x and rows along y.\<close>

theorem plot_image_pixels:
  assumes "samples_field sph f u" "dim u = MassDensity"
    and "offset_pc ox = Inr dx" "offset_pc oy = Inr dy"
    and "dim (vunit (star_x st)) = Length" "dim (vunit (star_y st)) = Length"
    and "title_text repr ttl time = Inr t"
    and "r \<le> plot_resolution" "c \<le> plot_resolution"
  shows "\<exists>img. images (run_calls (fst (plot_hydro_and_stars repr time sph st L fn ox oy ttl))) =
                 [(img, grid_extent L dx dy, OriginLower)] \<and>
              img ! r ! c = flog10 (fadd (Num (1 / 100000))
                (fmul (f (sample_at L plot_resolution dx c) (sample_at L plot_resolution dy r))
                      (Num (factor u / factor amu_per_cm3))))"
  using plot_image [OF assms(1-7)] transpose_field_grid_nth [OF assms(8,9), of f L dx dy] by simp

theorem plot_image_pixels_witness:
  "(100::nat) \<le> plot_resolution \<and>
   (\<exists>img. images (run_calls (fst (plot_hydro_and_stars (\<lambda>_. ''1.0'') \<lparr>qval = Num 1, qunit = myr\<rparr>
                 uniform_cloud one_star 10 None None None ''GMC''))) =
               [(img, grid_extent 10 (Num 0) (Num 0), OriginLower)] \<and>
           img ! 100 ! 100 = flog10 (fadd (Num (1 / 100000)) (Num 1)))"
proof -
  have r: "(100::nat) \<le> plot_resolution" by (simp add: plot_resolution_def)
  show ?thesis
    using plot_image_pixels [OF uniform_cloud_field witness_hyps(1,2,2,3,4,5) r r, of 10 None] r
    by simp
qed


text \<open>C13: The extent given to imshow is exactly the range of the sampled coordinates: its bounds are the first and last x and y samples of the N = 200 grid, offsets included.\<close>

theorem plot_extent_spans_samples:
  assumes "offset_pc ox = Inr dx" "offset_pc oy = Inr dy" "plot_extent L ox oy = Inr ext"
  shows "ext_xmin ext = sample_at L plot_resolution dx 0 \<and>
         ext_xmax ext = sample_at L plot_resolution dx plot_resolution \<and>
         ext_ymin ext = sample_at L plot_resolution dy 0 \<and>
         ext_ymax ext = sample_at L plot_resolution dy plot_resolution"
  using plot_extent_Inr [OF assms(1,2), of L] assms(3)
  by (simp add: grid_extent_def sample_at_def grid_coord_pos plot_resolution_def)

theorem plot_extent_spans_samples_witness:
  "plot_extent 10 None None = Inr (grid_extent 10 (Num 0) (Num 0)) \<and>
   ext_xmin (grid_extent 10 (Num 0) (Num 0)) = sample_at 10 plot_resolution (Num 0) 0 \<and>
   ext_xmax (grid_extent 10 (Num 0) (Num 0)) = sample_at 10 plot_resolution (Num 0) plot_resolution"
proof -
  have e: "plot_extent 10 None None = Inr (grid_extent 10 (Num 0) (Num 0))"
    by (rule plot_extent_Inr [OF offset_pc_None offset_pc_None])
  show ?thesis using plot_extent_spans_samples [OF offset_pc_None offset_pc_None e] e by blast
qed


text \<open>C14: Each of the N + 1 samples lies inside the pixel that shows it, but imshow treats the extent as pixel edges while the samples are grid vertices: sample c is off its pixel centre by (2c - N)/N half-pixels, half a pixel at the borders.\<close>

theorem sample_pixel_offset:
  assumes "0 < N" "c \<le> N" "0 < L" "sample_at L N (Num d) c = Num s"
  shows "fst (pixel_interval (- L / 2 + d) (L / 2 + d) (N + 1) c) \<le> s \<and>
         s \<le> snd (pixel_interval (- L / 2 + d) (L / 2 + d) (N + 1) c) \<and>
         s - (fst (pixel_interval (- L / 2 + d) (L / 2 + d) (N + 1) c) +
              snd (pixel_interval (- L / 2 + d) (L / 2 + d) (N + 1) c)) / 2 =
           (2 * real c - real N) / real N * (L / real (N + 1) / 2)"
proof -
  define n where "n = real N"
  define k where "k = real c"
  define w where "w = L / (n + 1)"
  define x0 where "x0 = - L / 2 + d"
  have n: "0 < n" using assms(1) by (simp add: n_def)
  have w: "0 < w" using n assms(3) by (simp add: w_def)
  have L: "L = (n + 1) * w" using n by (simp add: w_def)
  have s: "s = x0 + k * ((n + 1) * w) / n"
    using assms(1,4) n by (simp add: sample_at_def grid_coord_pos n_def k_def x0_def L field_simps)
  have pi: "pixel_interval (- L / 2 + d) (L / 2 + d) (N + 1) c = (x0 + k * w, x0 + (k + 1) * w)"
    using n by (simp add: pixel_interval_def n_def k_def x0_def w_def algebra_simps)
  have off: "s - ((x0 + k * w) + (x0 + (k + 1) * w)) / 2 = (2 * k - n) / n * (w / 2)"
    using n by (simp add: s field_simps)
  have N1: "real (N + 1) = n + 1" by (simp add: n_def)
  show ?thesis
    using sample_in_pixel [OF assms] off
    unfolding pi fst_conv snd_conv N1 k_def [symmetric] n_def [symmetric] w_def [symmetric]
    by simp
qed



theorem sample_pixel_offset_witness:
  "0 < (2::nat) \<and> (0::nat) \<le> 2 \<and> (0::real) < 2 \<and> sample_at 2 2 (Num 0) 0 = Num (- 1) \<and>
   fst (pixel_interval (- 2 / 2 + 0) (2 / 2 + 0) (2 + 1) 0) \<le> - 1 \<and>
   - 1 - (fst (pixel_interval (- 2 / 2 + 0) (2 / 2 + 0) (2 + 1) 0) +
          snd (pixel_interval (- 2 / 2 + 0) (2 / 2 + 0) (2 + 1) 0)) / 2 = - (1 / 3)"
proof -
  have s: "sample_at 2 2 (Num 0) 0 = Num (- 1)"
    by (simp add: sample_at_def grid_coord_pos)
  show ?thesis
    using sample_pixel_offset [of 2 0 2 0 "- 1"] s by simp
qed


text \<open>C1: Orientation contract: a star sitting at a sample point (x_c, y_r) is scattered at exactly that point, pixel (r, c) of the image shows the density sampled there, and the x axis runs from xmax to xmin for both layers.\<close>

theorem orientation_contract:
  assumes "samples_field sph f u" "dim u = MassDensity"
    and "offset_pc ox = Inr dx" "offset_pc oy = Inr dy"
    and px: "vunit (star_x st) = parsec" and py: "vunit (star_y st) = parsec" and ne: "\<not> is_empty st"
    and "title_text repr ttl time = Inr t"
    and "k < length (qvals (star_x st))" "k < length (qvals (star_y st))"
    and kx: "qvals (star_x st) ! k = sample_at L plot_resolution dx c"
    and ky: "qvals (star_y st) ! k = sample_at L plot_resolution dy r"
    and "r \<le> plot_resolution" "c \<le> plot_resolution"
  shows "\<exists>xs ys m img.
     scatters (run_calls (fst (plot_hydro_and_stars repr time sph st L fn ox oy ttl))) = [(xs, ys, m)] \<and>
     images (run_calls (fst (plot_hydro_and_stars repr time sph st L fn ox oy ttl))) =
       [(img, grid_extent L dx dy, OriginLower)] \<and>
     xs ! k = sample_at L plot_resolution dx c \<and> ys ! k = sample_at L plot_resolution dy r \<and>
     img ! r ! c = flog10 (fadd (Num (1 / 100000)) (fmul (f (xs ! k) (ys ! k)) (Num (factor u / factor amu_per_cm3)))) \<and>
     xlimits (run_calls (fst (plot_hydro_and_stars repr time sph st L fn ox oy ttl))) =
       Some (ext_xmax (grid_extent L dx dy), ext_xmin (grid_extent L dx dy))"
proof -
  have dims: "dim (vunit (star_x st)) = Length" "dim (vunit (star_y st)) = Length"
    using px py by simp_all
  note run = plot_run_state [OF assms(1-4) dims assms(8), of L fn]
  have pix: "transpose (field_grid f L plot_resolution dx dy) ! r ! c =
               f (sample_at L plot_resolution dx c) (sample_at L plot_resolution dy r)"
    and len: "r < length (transpose (field_grid f L plot_resolution dx dy))"
             "c < length (transpose (field_grid f L plot_resolution dx dy) ! r)"
    using transpose_field_grid_nth [OF assms(13,14)] by auto
  show ?thesis
    using run ne pix len kx ky
    by (simp add: star_points_parsec [OF px py] grid_extent_def)
qed

theorem orientation_contract_witness:
  "\<exists>xs ys m img.
     scatters (run_calls (fst (plot_hydro_and_stars (\<lambda>_. ''1.0'') \<lparr>qval = Num 1, qunit = myr\<rparr>
        uniform_cloud one_star 10 None None None ''GMC''))) = [(xs, ys, m)] \<and>
     images (run_calls (fst (plot_hydro_and_stars (\<lambda>_. ''1.0'') \<lparr>qval = Num 1, qunit = myr\<rparr>
        uniform_cloud one_star 10 None None None ''GMC''))) = [(img, grid_extent 10 (Num 0) (Num 0), OriginLower)] \<and>
     xs ! 0 = Num 0 \<and> ys ! 0 = Num 0 \<and> img ! 100 ! 100 = flog10 (fadd (Num (1 / 100000)) (Num 1))"
proof -
  have p: "vunit (star_x one_star) = parsec" "vunit (star_y one_star) = parsec" "\<not> is_empty one_star"
    by (simp_all add: one_star_def is_empty_def)
  have k: "(0::nat) < length (qvals (star_x one_star))" "(0::nat) < length (qvals (star_y one_star))"
    by (simp_all add: one_star_def)
  have c: "sample_at 10 plot_resolution (Num 0) 100 = Num 0"
    by (simp add: sample_at_def grid_coord_pos plot_resolution_def)
  have kx: "qvals (star_x one_star) ! 0 = sample_at 10 plot_resolution (Num 0) 100"
    and ky: "qvals (star_y one_star) ! 0 = sample_at 10 plot_resolution (Num 0) 100"
    by (simp_all add: one_star_def c)
  have r: "(100::nat) \<le> plot_resolution" by (simp add: plot_resolution_def)
  show ?thesis
    using orientation_contract [OF uniform_cloud_field witness_hyps(1,2,2) p witness_hyps(5) k kx ky r r, of None]
    by (simp add: c) blast
qed

text \<open>C15: Boundary L = 0: every sample coincides with the offset point, so every pixel of the image shows the same value (the log density there), and the axis limits are singular, xlim(a, a) and ylim(b, b).\<close>

theorem plot_zero_size:
  assumes "samples_field sph f u" "dim u = MassDensity"
    and "offset_pc ox = Inr (Num a)" "offset_pc oy = Inr (Num b)"
    and "dim (vunit (star_x st)) = Length" "dim (vunit (star_y st)) = Length"
    and "title_text repr ttl time = Inr t"
    and "r \<le> plot_resolution" "c \<le> plot_resolution"
  shows "\<exists>img. images (run_calls (fst (plot_hydro_and_stars repr time sph st 0 fn ox oy ttl))) =
                 [(img, grid_extent 0 (Num a) (Num b), OriginLower)] \<and>
              img ! r ! c = flog10 (fadd (Num (1 / 100000)) (fmul (f (Num a) (Num b)) (Num (factor u / factor amu_per_cm3)))) \<and>
              xlimits (run_calls (fst (plot_hydro_and_stars repr time sph st 0 fn ox oy ttl))) = Some (Num a, Num a) \<and>
              ylimits (run_calls (fst (plot_hydro_and_stars repr time sph st 0 fn ox oy ttl))) = Some (Num b, Num b)"
proof -
  have N: "0 < plot_resolution" by (simp add: plot_resolution_def)
  show ?thesis
    using plot_run_state [OF assms(1-7), of 0 fn] transpose_field_grid_nth [OF assms(8,9), of f 0 "Num a" "Num b"]
    by (simp add: sample_at_zero_size [OF N])
qed

theorem plot_zero_size_witness:
  "(100::nat) \<le> plot_resolution \<and>
   (\<exists>img. images (run_calls (fst (plot_hydro_and_stars (\<lambda>_. ''1.0'') \<lparr>qval = Num 1, qunit = myr\<rparr>
                 uniform_cloud one_star 0 None None None ''GMC''))) =
               [(img, grid_extent 0 (Num 0) (Num 0), OriginLower)] \<and>
           img ! 0 ! 100 = flog10 (fadd (Num (1 / 100000)) (Num 1))) \<and>
   xlimits (run_calls (fst (plot_hydro_and_stars (\<lambda>_. ''1.0'') \<lparr>qval = Num 1, qunit = myr\<rparr>
                 uniform_cloud one_star 0 None None None ''GMC''))) = Some (Num 0, Num 0)"
proof -
  have r: "(100::nat) \<le> plot_resolution" "(0::nat) \<le> plot_resolution" by (simp_all add: plot_resolution_def)
  show ?thesis
    using plot_zero_size [OF uniform_cloud_field witness_hyps(1,2,2,3,4,5) r(2) r(1), of None] r
    by simp blast
qed


end
